theory Spec2Isabelle
  imports Main
begin

section \<open>Renju rules engine: data model\<close>

text \<open>
  The values that occur in a cell of a board. The source documents four
  (\<^verbatim>\<open>"black"\<close>, \<^verbatim>\<open>"white"\<close>, \<^verbatim>\<open>"removed"\<close> and \<^verbatim>\<open>null\<close>); the code itself
  produces two more: the number \<^verbatim>\<open>0\<close> (the mask of \<^verbatim>\<open>getTouchingCells\<close> and the
  initial \<^verbatim>\<open>previousValue\<close> of \<^verbatim>\<open>countTouchingInARow\<close>) and \<^verbatim>\<open>undefined\<close> (a read
  outside an array).
\<close>

datatype playerColour = Black | White | Removed | Null | Zero | Undefined

type_synonym board = "playerColour list list"

record move =
  m_row :: int
  m_column :: int
  m_playerColour :: playerColour
  m_removed :: bool
  m_doubleThree :: "bool option"
  m_doubleFour :: "bool option"

record gameState =
  gs_board :: board
  gs_moves :: "move list"

text \<open>What a call can throw: a \<^verbatim>\<open>TypeError\<close> of the engine (a property read or
  written on \<^verbatim>\<open>undefined\<close>) and the \<^verbatim>\<open>Error\<close> of \<^verbatim>\<open>createBoard\<close>.\<close>

datatype error = TypeError | DimensionsError

text \<open>Dimensions are natural numbers: \<^verbatim>\<open>new Array(n)\<close> for an \<open>n\<close> that is negative,
  fractional or beyond the engine's limit on array lengths is outside the model.\<close>

definition createBoard :: "nat \<Rightarrow> nat \<Rightarrow> playerColour \<Rightarrow> error + board" where
  "createBoard width height input =
     (if width mod 2 = 0 \<or> height mod 2 = 0 then Inl DimensionsError
      else Inr (replicate width (replicate height input)))"

definition initiateGame :: "nat \<Rightarrow> nat \<Rightarrow> playerColour \<Rightarrow> error + gameState" where
  "initiateGame width height input =
     (case createBoard width height input of
        Inl e \<Rightarrow> Inl e
      | Inr b \<Rightarrow> Inr \<lparr>gs_board = b, gs_moves = []\<rparr>)"

definition movesMade :: "gameState \<Rightarrow> nat" where
  "movesMade gameState = length (gs_moves gameState)"

definition nextMoveNumber :: "gameState \<Rightarrow> nat" where
  "nextMoveNumber gameState = movesMade gameState + 1"

definition colourToMove :: "gameState \<Rightarrow> playerColour" where
  "colourToMove gameState =
     (let n = movesMade gameState in
      if n \<le> 4 \<or> n \<ge> 7 then (if n mod 2 = 0 then Black else White)
      else (if n mod 2 = 0 then White else Black))"

subsection \<open>Arrays as the engine reads and writes them\<close>

text \<open>\<^verbatim>\<open>xs[i]\<close>: \<^verbatim>\<open>undefined\<close> (here \<open>None\<close>) outside the array.\<close>

definition js_index :: "'a list \<Rightarrow> int \<Rightarrow> 'a option" where
  "js_index xs i = (if 0 \<le> i \<and> i < int (length xs) then Some (xs ! nat i) else None)"

text \<open>\<^verbatim>\<open>row[i]\<close> on an array of cells.\<close>

definition cellAt :: "playerColour list \<Rightarrow> int \<Rightarrow> playerColour" where
  "cellAt cells i = (case js_index cells i of None \<Rightarrow> Undefined | Some v \<Rightarrow> v)"

text \<open>\<^verbatim>\<open>board[row][column]\<close>: a \<^verbatim>\<open>TypeError\<close> when \<^verbatim>\<open>board[row]\<close> is undefined.\<close>

definition readCell :: "board \<Rightarrow> int \<Rightarrow> int \<Rightarrow> error + playerColour" where
  "readCell board row column =
     (case js_index board row of
        None \<Rightarrow> Inl TypeError
      | Some cells \<Rightarrow> Inr (cellAt cells column))"

text \<open>\<^verbatim>\<open>cells[i] = v\<close>: inside the array the element is replaced; beyond its end
  the array grows (the skipped indices read as \<^verbatim>\<open>undefined\<close>); a negative index
  sets a property and leaves the elements as they are.\<close>

definition js_assign :: "playerColour list \<Rightarrow> int \<Rightarrow> playerColour \<Rightarrow> playerColour list" where
  "js_assign cells i v =
     (if i < 0 then cells
      else if i < int (length cells) then cells[nat i := v]
      else cells @ replicate (nat i - length cells) Undefined @ [v])"

text \<open>\<^verbatim>\<open>board[row][column] = v\<close>.\<close>

definition writeCell :: "board \<Rightarrow> int \<Rightarrow> int \<Rightarrow> playerColour \<Rightarrow> error + board" where
  "writeCell board row column v =
     (case js_index board row of
        None \<Rightarrow> Inl TypeError
      | Some cells \<Rightarrow> Inr (board[nat row := js_assign cells column v]))"

text \<open>\<^verbatim>\<open>xs.slice(start, stop)\<close>: negative arguments count from the end, both are
  clamped to the array.\<close>

definition js_slice :: "int \<Rightarrow> int \<Rightarrow> 'a list \<Rightarrow> 'a list" where
  "js_slice start stop xs =
     (let len = int (length xs);
          k = (if start < 0 then max (len + start) 0 else min start len);
          final = (if stop < 0 then max (len + stop) 0 else min stop len)
      in take (nat (final - k)) (drop (nat k) xs))"

definition bindE :: "error + 'a \<Rightarrow> ('a \<Rightarrow> error + 'b) \<Rightarrow> error + 'b" where
  "bindE m f = (case m of Inl e \<Rightarrow> Inl e | Inr x \<Rightarrow> f x)"

subsection \<open>Helper functions of the engine\<close>

text \<open>\<^verbatim>\<open>movesMadeFromBoard\<close>; the argument is the source's argument after
  \<^verbatim>\<open>R.flatten\<close>.\<close>

definition movesMadeFromBoard :: "playerColour list \<Rightarrow> nat" where
  "movesMadeFromBoard flat = sum_list (map (\<lambda>x. if x = Null then 0 else 1) flat)"

definition isNextTo :: "int \<Rightarrow> int \<Rightarrow> int \<Rightarrow> int \<Rightarrow> bool" where
  "isNextTo row1 column1 row2 column2 =
     (\<bar>column1 - column2\<bar> \<le> 1 \<and> \<bar>row1 - row2\<bar> \<le> 1)"

definition getBoardColumnNumber :: "board \<Rightarrow> nat" where
  "getBoardColumnNumber board = length board"

definition getBoardRowNumber :: "board \<Rightarrow> error + nat" where
  "getBoardRowNumber board = (case board of [] \<Rightarrow> Inl TypeError | r0 # _ \<Rightarrow> Inr (length r0))"

definition half :: "nat \<Rightarrow> nat" where
  "half number = number div 2"

definition rotateBoard :: "board \<Rightarrow> error + board" where
  "rotateBoard board =
     (case board of
        [] \<Rightarrow> Inl TypeError
      | r0 # _ \<Rightarrow>
          Inr (map (\<lambda>index. rev (map (\<lambda>row. cellAt row (int index)) board)) [0..<length r0]))"

definition getBoardSection :: "int \<Rightarrow> int \<Rightarrow> int \<Rightarrow> int \<Rightarrow> board \<Rightarrow> board" where
  "getBoardSection startingRow endingRow startingColumn endingColumn board =
     map (js_slice startingColumn (endingColumn + 1))
       (js_slice startingRow (endingRow + 1) board)"

definition checkNormalMove :: "playerColour \<Rightarrow> gameState \<Rightarrow> bool" where
  "checkNormalMove playerColour gameState =
     (if playerColour \<noteq> colourToMove gameState then False else True)"

text \<open>
  \<^verbatim>\<open>checkMoveSeven\<close>. \<^verbatim>\<open>R.update(row, R.update(column, playerColour))\<close> hands
  \<^verbatim>\<open>R.update\<close> a partially applied function as the new element, so the whole row
  \<^verbatim>\<open>row\<close> is replaced by one function object (an index outside the array leaves
  the array as it is, a negative one counts from the end); \<^verbatim>\<open>R.flatten\<close> keeps that
  object as one element, which is neither \<^verbatim>\<open>"removed"\<close> nor \<^verbatim>\<open>null\<close>. The model
  flattens the other rows and counts the object separately.
\<close>

definition checkMoveSeven :: "playerColour \<Rightarrow> int \<Rightarrow> int \<Rightarrow> board \<Rightarrow> bool" where
  "checkMoveSeven playerColour row column board =
     (if playerColour \<noteq> White then False
      else
        let len = int (length board);
            replaced = \<not> (row \<ge> len \<or> row < - len);
            idx = nat (if row < 0 then len + row else row);
            temporaryBoard =
              (if replaced then concat (take idx board @ drop (Suc idx) board)
               else concat board)
        in if Removed \<notin> set temporaryBoard then False
           else length (filter (\<lambda>x. x \<noteq> Null) temporaryBoard) + (if replaced then 1 else 0) = 7)"

text \<open>
  \<^verbatim>\<open>checkMoveThree\<close>. One pass of its \<^verbatim>\<open>while\<close> loop reads the two cells and
  rotates the board; the loop runs while neither cell read is white, and nothing
  bounds the number of passes.
\<close>

definition checkMoveThree_body ::
  "int \<Rightarrow> int \<Rightarrow> board \<Rightarrow> error + (playerColour \<times> playerColour \<times> bool \<times> board)" where
  "checkMoveThree_body middleRow middleColumn newBoard =
     bindE (readCell newBoard middleRow (middleColumn - 1)) (\<lambda>cellAboveMiddle.
     bindE (readCell newBoard (middleRow - 1) (middleColumn - 1)) (\<lambda>cellAccrossMiddle.
     bindE (rotateBoard newBoard) (\<lambda>rotated.
       Inr (cellAboveMiddle, cellAccrossMiddle, True, rotated))))"

partial_function (option) checkMoveThree_while ::
  "int \<Rightarrow> int \<Rightarrow> playerColour \<Rightarrow> playerColour \<Rightarrow> bool \<Rightarrow> board
     \<Rightarrow> (error + (playerColour \<times> playerColour \<times> bool \<times> board)) option" where
  "checkMoveThree_while middleRow middleColumn cellAboveMiddle cellAccrossMiddle wasRotated newBoard =
     (if \<not> (cellAboveMiddle = White \<or> cellAccrossMiddle = White) then
        (case checkMoveThree_body middleRow middleColumn newBoard of
           Inl e \<Rightarrow> Some (Inl e)
         | Inr (cellAbove, cellAccross, rotated, nb) \<Rightarrow>
             checkMoveThree_while middleRow middleColumn cellAbove cellAccross rotated nb)
      else Some (Inr (cellAboveMiddle, cellAccrossMiddle, wasRotated, newBoard)))"

declare checkMoveThree_while.simps [code]

text \<open>What follows the loop: the shape test on the rotated board.\<close>

definition checkMoveThree_shape ::
  "int \<Rightarrow> int \<Rightarrow> playerColour \<times> playerColour \<times> bool \<times> board \<Rightarrow> error + bool" where
  "checkMoveThree_shape middleRow middleColumn st =
     (case st of (cellAboveMiddle, cellAccrossMiddle, wasRotated, board0) \<Rightarrow>
        bindE (if \<not> wasRotated \<and> cellAccrossMiddle = White then rotateBoard board0
               else Inr board0) (\<lambda>newBoard.
        if cellAboveMiddle = White then
          Inr (movesMadeFromBoard (concat (getBoardSection
                 (middleRow - 2) (middleRow + 2) middleColumn (middleColumn + 2) newBoard)) = 3)
        else if cellAccrossMiddle = White then
          bindE (readCell newBoard (middleRow + 2) (middleColumn - 2)) (\<lambda>corner1.
          bindE (readCell newBoard (middleRow - 2) (middleColumn + 2)) (\<lambda>corner2.
            Inr (movesMadeFromBoard
                   (concat (getBoardSection middleRow (middleRow + 2)
                              middleColumn (middleColumn + 2) newBoard)
                    @ concat (getBoardSection (middleRow - 1) (middleRow - 1)
                                (middleColumn + 1) (middleColumn + 2) newBoard)
                    @ concat (getBoardSection (middleRow + 1) (middleRow + 2)
                                (middleColumn - 1) (middleColumn - 1) newBoard)
                    @ [corner1, corner2]) = 3)))
        else Inr False))"

text \<open>The part of \<^verbatim>\<open>checkMoveThree\<close> that works on the clone \<open>newBoard\<close> after the
  candidate stone has been written into it.\<close>

definition checkMoveThree_scan :: "board \<Rightarrow> (error + bool) option" where
  "checkMoveThree_scan newBoard =
     (case getBoardRowNumber newBoard of
        Inl e \<Rightarrow> Some (Inl e)
      | Inr rowNumber \<Rightarrow>
          let middleColumn = int (half (getBoardColumnNumber newBoard));
              middleRow = int (half rowNumber)
          in (case readCell newBoard (middleRow - 1) middleColumn of
                Inl e \<Rightarrow> Some (Inl e)
              | Inr cellAboveMiddle \<Rightarrow>
                 (case readCell newBoard (middleRow - 1) (middleColumn - 1) of
                    Inl e \<Rightarrow> Some (Inl e)
                  | Inr cellAccrossMiddle \<Rightarrow>
                     (case checkMoveThree_while middleRow middleColumn
                             cellAboveMiddle cellAccrossMiddle False newBoard of
                        None \<Rightarrow> None
                      | Some (Inl e) \<Rightarrow> Some (Inl e)
                      | Some (Inr st) \<Rightarrow> Some (checkMoveThree_shape middleRow middleColumn st)))))"

definition checkMoveThree :: "playerColour \<Rightarrow> int \<Rightarrow> int \<Rightarrow> board \<Rightarrow> (error + bool) option" where
  "checkMoveThree playerColour row column board =
     (if playerColour = White then Some (Inr False)
      else (case writeCell board row column playerColour of
              Inl e \<Rightarrow> Some (Inl e)
            | Inr newBoard \<Rightarrow> checkMoveThree_scan newBoard))"

subsection \<open>Move validity\<close>

definition isMoveValid :: "playerColour \<Rightarrow> int \<Rightarrow> int \<Rightarrow> gameState \<Rightarrow> (error + bool) option" where
  "isMoveValid playerColour row column gameState =
     (let board = gs_board gameState in
      case readCell board row column of
        Inl e \<Rightarrow> Some (Inl e)
      | Inr cell \<Rightarrow>
          if cell \<noteq> Null \<and> cell \<noteq> Removed then Some (Inr False)
          else
            (case getBoardRowNumber board of
               Inl e \<Rightarrow> Some (Inl e)
             | Inr rowNumber \<Rightarrow>
                 let nextMoveNumber = nextMoveNumber gameState;
                     columnMiddle = int (half (getBoardColumnNumber board));
                     rowMiddle = int (half rowNumber)
                 in if nextMoveNumber = 1 then
                      Some (Inr (column = columnMiddle \<and> row = rowMiddle \<and> playerColour = Black))
                    else if nextMoveNumber = 2 then
                      Some (Inr (isNextTo rowMiddle columnMiddle row column \<and> playerColour = White))
                    else if nextMoveNumber = 3 then checkMoveThree playerColour row column board
                    else if nextMoveNumber = 4 then Some (Inr (playerColour = White))
                    else if nextMoveNumber = 5 then Some (Inr (playerColour = Black))
                    else if nextMoveNumber = 6 then Some (Inr (playerColour = Black))
                    else if nextMoveNumber = 7 then
                      Some (Inr (checkMoveSeven playerColour row column board))
                    else Some (Inr (checkNormalMove playerColour gameState))))"

subsection \<open>Pattern scanner\<close>

text \<open>The \<^verbatim>\<open>forEach\<close> of \<^verbatim>\<open>countTouchingInARow\<close>, with its four variables as the
  state \<open>(counter, startingIndex, largestCounter, previousValue)\<close>.\<close>

fun countTouching_forEach ::
  "playerColour \<Rightarrow> playerColour list \<Rightarrow> int \<Rightarrow> int \<times> int \<times> int \<times> playerColour
     \<Rightarrow> int \<times> int \<times> int \<times> playerColour" where
  "countTouching_forEach playerColour [] index st = st"
| "countTouching_forEach playerColour (v # rest) index
       (counter, startingIndex, largestCounter, previousValue) =
     (let counter1 = (if v = playerColour \<and> v = previousValue then counter + 1 else 1);
          largestCounter1 = (if counter1 > largestCounter then counter1 else largestCounter);
          startingIndex1 =
            (if counter1 > largestCounter then index - counter1 + 1 else startingIndex)
      in countTouching_forEach playerColour rest (index + 1)
           (counter1, startingIndex1, largestCounter1, v))"

definition countTouchingInARow :: "playerColour \<Rightarrow> playerColour list \<Rightarrow> int list" where
  "countTouchingInARow playerColour row =
     (case countTouching_forEach playerColour row 0 (1, 0, 1, Zero) of
        (counter, startingIndex, largestCounter, previousValue) \<Rightarrow>
          [startingIndex..startingIndex + largestCounter - 1])"

definition countHorizontalTouching :: "playerColour \<Rightarrow> board \<Rightarrow> nat list" where
  "countHorizontalTouching playerColour board =
     (let touchingPieces = map (countTouchingInARow playerColour) board;
          numberOfTouchingPieces = map length touchingPieces
      in filter (\<lambda>x. x \<ge> 2) numberOfTouchingPieces)"

definition countVerticalTouching :: "playerColour \<Rightarrow> board \<Rightarrow> error + nat list" where
  "countVerticalTouching playerColour board =
     bindE (rotateBoard board) (\<lambda>rotated. Inr (countHorizontalTouching playerColour rotated))"

text \<open>
  \<^verbatim>\<open>if (!result[k]) { result[k] = []; } result[k].push(element)\<close>. Writing beyond
  the end of \<^verbatim>\<open>result\<close> leaves holes in the source; the model fills them with empty
  lines. A hole is skipped by the \<^verbatim>\<open>forEach\<close> of \<^verbatim>\<open>countHorizontalTouching\<close>, and
  an empty line gives a count of 1 there, which its filter drops.
\<close>

definition pushAt :: "board \<Rightarrow> nat \<Rightarrow> playerColour \<Rightarrow> board" where
  "pushAt result k element =
     (let padded = result @ replicate (Suc k - length result) []
      in padded[k := padded ! k @ [element]])"

definition changeDiagonalToHorizontalUp :: "board \<Rightarrow> board" where
  "changeDiagonalToHorizontalUp board =
     (let numRows = length board
      in fold (\<lambda>i result.
                 let row = board ! i;
                     numElements = length row
                 in fold (\<lambda>j result. pushAt result (j + i) (row ! j)) [0..<numElements] result)
           [0..<numRows] [])"

definition changeDiagonalToHorizontalDown :: "board \<Rightarrow> board" where
  "changeDiagonalToHorizontalDown board =
     (let numRows = length board
      in fold (\<lambda>i result.
                 let row = board ! (numRows - 1 - i);
                     numElements = length row
                 in fold (\<lambda>j result. pushAt result (j + i) (row ! j)) [0..<numElements] result)
           [0..<numRows] [])"

definition changeDiagonalToHorizontal :: "board \<Rightarrow> board" where
  "changeDiagonalToHorizontal board =
     changeDiagonalToHorizontalUp board @ changeDiagonalToHorizontalDown board"

definition countDiagonalTouching :: "playerColour \<Rightarrow> board \<Rightarrow> nat list" where
  "countDiagonalTouching playerColour board =
     (let temporaryBoard = changeDiagonalToHorizontal board
      in countHorizontalTouching playerColour temporaryBoard)"

definition totalNumberOfTouchingPieces :: "playerColour \<Rightarrow> board \<Rightarrow> error + nat list" where
  "totalNumberOfTouchingPieces playerColour board =
     bindE (countVerticalTouching playerColour board) (\<lambda>vertical.
       Inr (vertical @ countHorizontalTouching playerColour board
              @ countDiagonalTouching playerColour board))"

definition checkIfFiveInARow :: "playerColour \<Rightarrow> board \<Rightarrow> error + bool" where
  "checkIfFiveInARow playerColour board =
     bindE (totalNumberOfTouchingPieces playerColour board) (\<lambda>numberOfTouchingPieces.
       Inr (5 \<in> set numberOfTouchingPieces))"

definition checkOverline :: "playerColour \<Rightarrow> board \<Rightarrow> error + bool" where
  "checkOverline playerColour board =
     bindE (totalNumberOfTouchingPieces playerColour board) (\<lambda>numberOfTouchingPieces.
       Inr (list_ex (\<lambda>x. x > 5) numberOfTouchingPieces))"

text \<open>\<^verbatim>\<open>pad2DArray\<close>: the frame of \<open>padValue\<close>, then the copy of the cells
  \<^verbatim>\<open>board[rowIndex][columnIndex]\<close> for \<open>columnIndex\<close> below \<^verbatim>\<open>board[0].length\<close>.\<close>

definition pad2DArray :: "nat \<Rightarrow> playerColour \<Rightarrow> board \<Rightarrow> error + board" where
  "pad2DArray padding padValue board =
     (case board of
        [] \<Rightarrow> Inl TypeError
      | r0 # _ \<Rightarrow>
          let blank = replicate (length r0 + 2 * padding) padValue
          in Inr (replicate padding blank
                  @ map (\<lambda>row. replicate padding padValue
                                @ map (\<lambda>columnIndex. cellAt row (int columnIndex)) [0..<length r0]
                                @ replicate padding padValue) board
                  @ replicate padding blank))"

definition getCellsAround :: "nat \<Rightarrow> nat \<Rightarrow> nat \<Rightarrow> board \<Rightarrow> error + board" where
  "getCellsAround rowIndex columnIndex number board =
     (let startingRow = int rowIndex;
          endingRow = int rowIndex + 2 * int number;
          startingColumn = int columnIndex;
          endingColumn = int columnIndex + 2 * int number
      in bindE (pad2DArray number Null board) (\<lambda>temporaryBoard.
           Inr (getBoardSection startingRow endingRow startingColumn endingColumn temporaryBoard)))"

definition getTouchingCells :: "board \<Rightarrow> error + board" where
  "getTouchingCells board =
     (case board of
        [] \<Rightarrow> Inl TypeError
      | r0 # _ \<Rightarrow>
          let numRows = length board;
              numCols = length r0;
              middleRow = numRows div 2;
              middleCol = numCols div 2;
              middleValue = cellAt (board ! middleRow) (int middleCol)
          in Inr (map (\<lambda>i. map (\<lambda>j. if cellAt (board ! i) (int j) = middleValue
                                       then cellAt (board ! i) (int j) else Zero)
                              [0..<numCols])
                    [0..<numRows]))"

text \<open>\<^verbatim>\<open>Array.prototype.some\<close> with a callback that can throw: the first \<^verbatim>\<open>true\<close>
  or the first exception ends the walk.\<close>

fun some_js :: "('a \<Rightarrow> error + bool) \<Rightarrow> 'a list \<Rightarrow> error + bool" where
  "some_js f [] = Inr False"
| "some_js f (x # xs) =
     (case f x of
        Inl e \<Rightarrow> Inl e
      | Inr found \<Rightarrow> if found then Inr True else some_js f xs)"

text \<open>The callback shared by \<^verbatim>\<open>blackMakesDoubleThree\<close> (\<open>number = 2\<close>, runs of 3)
  and \<^verbatim>\<open>blackMakesDoubleFour\<close> (\<open>number = 3\<close>, runs of 4).\<close>

definition doubleAt :: "nat \<Rightarrow> nat \<Rightarrow> board \<Rightarrow> nat \<Rightarrow> nat \<Rightarrow> error + bool" where
  "doubleAt number run board rowIndex columnIndex =
     bindE (getCellsAround rowIndex columnIndex number board) (\<lambda>cellsAround.
     bindE (getTouchingCells cellsAround) (\<lambda>touchingCells.
     bindE (totalNumberOfTouchingPieces Black touchingCells) (\<lambda>numberOfTouchingPieces.
       Inr (length (filter (\<lambda>x. x = run) numberOfTouchingPieces) \<ge> 2))))"

definition blackMakesDoubleThree :: "board \<Rightarrow> error + bool" where
  "blackMakesDoubleThree board =
     some_js (\<lambda>rowIndex.
        some_js (\<lambda>columnIndex. doubleAt 2 3 board rowIndex columnIndex)
          [0..<length (board ! rowIndex)])
       [0..<length board]"

definition blackMakesDoubleFour :: "board \<Rightarrow> error + bool" where
  "blackMakesDoubleFour board =
     some_js (\<lambda>rowIndex.
        some_js (\<lambda>columnIndex. doubleAt 3 4 board rowIndex columnIndex)
          [0..<length (board ! rowIndex)])
       [0..<length board]"

subsection \<open>Outcome evaluator\<close>

record checkedEndingConditions =
  ce_valid :: bool
  ce_reason :: string

record attemptedMove =
  am_gameState :: "gameState option"
  am_valid :: bool

text \<open>\<^verbatim>\<open>removeLastMove\<close>: \<^verbatim>\<open>pop\<close> of an empty log gives \<^verbatim>\<open>undefined\<close>, whose
  \<^verbatim>\<open>row\<close> cannot be read.\<close>

definition removeLastMove :: "gameState \<Rightarrow> error + gameState" where
  "removeLastMove gameState =
     (if gs_moves gameState = [] then Inl TypeError
      else
        let lastMove = last (gs_moves gameState)
        in bindE (writeCell (gs_board gameState) (m_row lastMove) (m_column lastMove) Null)
             (\<lambda>b. Inr \<lparr>gs_board = b, gs_moves = butlast (gs_moves gameState)\<rparr>))"

text \<open>String conversion of a value in \<^verbatim>\<open>"..." + playerColour + "."\<close>.\<close>

fun toString :: "playerColour \<Rightarrow> string" where
  "toString Black = ''black''"
| "toString White = ''white''"
| "toString Removed = ''removed''"
| "toString Null = ''null''"
| "toString Zero = ''0''"
| "toString Undefined = ''undefined''"

text \<open>\<^verbatim>\<open>a && !b(removeLastMove(gameState).board)\<close>: the retraction is evaluated
  only when \<open>a\<close> holds.\<close>

definition justMade :: "(board \<Rightarrow> error + bool) \<Rightarrow> gameState \<Rightarrow> error + bool" where
  "justMade makes gameState =
     bindE (makes (gs_board gameState)) (\<lambda>now.
       if \<not> now then Inr False
       else bindE (removeLastMove gameState) (\<lambda>retracted.
            bindE (makes (gs_board retracted)) (\<lambda>earlier. Inr (\<not> earlier))))"

definition noWin :: "playerColour \<Rightarrow> checkedEndingConditions" where
  "noWin playerColour =
     \<lparr>ce_valid = False, ce_reason = ''No winning moves for '' @ toString playerColour @ ''.''\<rparr>"

text \<open>The \<^verbatim>\<open>if (playerColour === "white")\<close> block of \<^verbatim>\<open>checkWin\<close>.\<close>

definition checkWin_white :: "gameState \<Rightarrow> error + checkedEndingConditions" where
  "checkWin_white gameState =
     (let board = gs_board gameState in
      bindE (checkIfFiveInARow White board) (\<lambda>five.
      bindE (if five then Inr True else checkOverline White board) (\<lambda>fiveOrMore.
      if fiveOrMore then Inr \<lparr>ce_valid = True, ce_reason = ''5 or more in a row for white.''\<rparr>
      else
      bindE (checkOverline Black board) (\<lambda>overline.
      if overline then Inr \<lparr>ce_valid = True, ce_reason = ''Black makes overline.''\<rparr>
      else
      bindE (justMade blackMakesDoubleFour gameState) (\<lambda>doubleFour.
      if doubleFour then Inr \<lparr>ce_valid = True, ce_reason = ''Black makes double four.''\<rparr>
      else
      bindE (justMade blackMakesDoubleThree gameState) (\<lambda>doubleThree.
      if doubleThree then Inr \<lparr>ce_valid = True, ce_reason = ''Black makes double three.''\<rparr>
      else Inr (noWin White)))))))"

definition checkWin :: "playerColour \<Rightarrow> gameState \<Rightarrow> error + checkedEndingConditions" where
  "checkWin playerColour gameState =
     (let board = gs_board gameState in
      bindE (if playerColour = Black then checkIfFiveInARow Black board else Inr False) (\<lambda>five.
      if five then Inr \<lparr>ce_valid = True, ce_reason = ''5 in a row for black.''\<rparr>
      else if playerColour = White then checkWin_white gameState
      else Inr (noWin playerColour)))"

definition placement :: "int \<Rightarrow> int \<Rightarrow> playerColour \<Rightarrow> move" where
  "placement row column playerColour =
     \<lparr>m_row = row, m_column = column, m_playerColour = playerColour, m_removed = False,
      m_doubleThree = None, m_doubleFour = None\<rparr>"

definition removal :: "int \<Rightarrow> int \<Rightarrow> move" where
  "removal row column =
     \<lparr>m_row = row, m_column = column, m_playerColour = Black, m_removed = True,
      m_doubleThree = Some False, m_doubleFour = Some False\<rparr>"

definition passMove :: "playerColour \<Rightarrow> move" where
  "passMove playerColour =
     \<lparr>m_row = - 1, m_column = - 1, m_playerColour = playerColour, m_removed = False,
      m_doubleThree = Some False, m_doubleFour = Some False\<rparr>"

definition invalid :: attemptedMove where
  "invalid = \<lparr>am_gameState = None, am_valid = False\<rparr>"

definition accepted :: "board \<Rightarrow> move list \<Rightarrow> attemptedMove" where
  "accepted board moves =
     \<lparr>am_gameState = Some \<lparr>gs_board = board, gs_moves = moves\<rparr>, am_valid = True\<rparr>"

definition attemptPly ::
  "playerColour \<Rightarrow> int \<Rightarrow> int \<Rightarrow> gameState \<Rightarrow> (error + attemptedMove) option" where
  "attemptPly playerColour row column gameState =
     (case isMoveValid playerColour row column gameState of
        None \<Rightarrow> None
      | Some (Inl e) \<Rightarrow> Some (Inl e)
      | Some (Inr ok) \<Rightarrow>
          if ok then
            (let moves = gs_moves gameState @ [placement row column playerColour]
             in Some (bindE (writeCell (gs_board gameState) row column playerColour)
                        (\<lambda>board. Inr (accepted board moves))))
          else Some (Inr invalid))"

definition attemptRemove :: "int \<Rightarrow> int \<Rightarrow> gameState \<Rightarrow> error + attemptedMove" where
  "attemptRemove row column gameState =
     (let moves = gs_moves gameState in
      if movesMade gameState \<noteq> 6 then Inr invalid
      else
        let previousMove = moves ! (length moves - 1);
            secondPreviousMove = moves ! (length moves - 2)
        in if \<not> ((m_row previousMove = row \<and> m_column previousMove = column)
                  \<or> (m_row secondPreviousMove = row \<and> m_column secondPreviousMove = column))
           then Inr invalid
           else bindE (writeCell (gs_board gameState) row column Removed)
                  (\<lambda>board. Inr (accepted board (moves @ [removal row column]))))"

definition attemptPass :: "playerColour \<Rightarrow> gameState \<Rightarrow> attemptedMove" where
  "attemptPass playerColour gameState =
     (if movesMade gameState < 3 then invalid
      else if \<not> checkNormalMove playerColour gameState then invalid
      else accepted (gs_board gameState) (gs_moves gameState @ [passMove playerColour]))"

subsection \<open>Playing a sequence of actions\<close>

text \<open>The three operations that change a position, and a caller that applies them
  in turn, going on with the returned position (\<^verbatim>\<open>gameState = attempt.gameState\<close>)
  as long as each attempt is valid.\<close>

datatype action = Ply playerColour int int | Remove int int | Pass playerColour

fun perform :: "action \<Rightarrow> gameState \<Rightarrow> (error + attemptedMove) option" where
  "perform (Ply playerColour row column) gameState = attemptPly playerColour row column gameState"
| "perform (Remove row column) gameState = Some (attemptRemove row column gameState)"
| "perform (Pass playerColour) gameState = Some (Inr (attemptPass playerColour gameState))"

fun play :: "action list \<Rightarrow> gameState \<Rightarrow> gameState option" where
  "play [] gameState = Some gameState"
| "play (a # rest) gameState =
     (case perform a gameState of
        Some (Inr attempted) \<Rightarrow>
          (case am_gameState attempted of
             Some next \<Rightarrow> if am_valid attempted then play rest next else None
           | None \<Rightarrow> None)
      | _ \<Rightarrow> None)"

definition emptyPosition :: "nat \<Rightarrow> nat \<Rightarrow> gameState" where
  "emptyPosition width height =
     \<lparr>gs_board = replicate width (replicate height Null), gs_moves = []\<rparr>"

subsection \<open>The third move after the vertical opening\<close>

text \<open>The position after black at (7, 7) and white at (6, 7) on the 15 by 15 board.\<close>

definition verticalOpening :: gameState where
  "verticalOpening =
     \<lparr>gs_board = (replicate 15 (replicate 15 Null))
                   [7 := (replicate 15 Null)[7 := Black], 6 := (replicate 15 Null)[7 := White] ],
      gs_moves = [placement 7 7 Black, placement 6 7 White]\<rparr>"

text \<open>The cells the specification lists: rows 5 to 8 at column 9, rows 5 to 8 at
  column 8, rows 5, 8 and 9 at column 7.\<close>

definition claimedMoveThree :: "int \<Rightarrow> int \<Rightarrow> bool" where
  "claimedMoveThree row column =
     ((5 \<le> row \<and> row \<le> 8 \<and> column = 9) \<or> (5 \<le> row \<and> row \<le> 8 \<and> column = 8)
      \<or> ((row = 5 \<or> row = 8 \<or> row = 9) \<and> column = 7))"

text \<open>The cells the engine accepts: rows 5 to 9 at columns 8 and 9, rows 5, 8 and 9
  at column 7.\<close>

definition legalMoveThree :: "int \<Rightarrow> int \<Rightarrow> bool" where
  "legalMoveThree row column =
     ((5 \<le> row \<and> row \<le> 9 \<and> (column = 8 \<or> column = 9))
      \<or> ((row = 5 \<or> row = 8 \<or> row = 9) \<and> column = 7))"

subsection \<open>The log and the board\<close>

text \<open>
  The fold of a move log onto a board, in the specification's words: a pass
  (row and column \<open>-1\<close>) leaves the board as it is, a removal marks its cell
  \<^verbatim>\<open>"removed"\<close>, a placement writes its colour.
\<close>

definition applyMove :: "board \<Rightarrow> move \<Rightarrow> board" where
  "applyMove b m =
     (if m_row m = - 1 \<and> m_column m = - 1 then b
      else b[nat (m_row m) :=
               (b ! nat (m_row m))[nat (m_column m) :=
                  (if m_removed m then Removed else m_playerColour m)]])"

definition replay :: "nat \<Rightarrow> nat \<Rightarrow> move list \<Rightarrow> board" where
  "replay width height ms = foldl applyMove (replicate width (replicate height Null)) ms"

text \<open>A pass among the actions of a caller.\<close>

fun isPass :: "action \<Rightarrow> bool" where
  "isPass (Pass playerColour) = True"
| "isPass _ = False"

text \<open>What every position reached by accepted actions satisfies: the board is a
  \<open>w\<close> by \<open>h\<close> grid, every logged move is a pass or lies on the board, and the board
  is the replay of the log.\<close>

definition consistent :: "nat \<Rightarrow> nat \<Rightarrow> gameState \<Rightarrow> bool" where
  "consistent w h gs =
     (length (gs_board gs) = w \<and> (\<forall>cells \<in> set (gs_board gs). length cells = h)
      \<and> (\<forall>m \<in> set (gs_moves gs).
            (m_row m = - 1 \<and> m_column m = - 1)
            \<or> (0 \<le> m_row m \<and> m_row m < int w \<and> 0 \<le> m_column m \<and> m_column m < int h))
      \<and> gs_board gs = replay w h (gs_moves gs))"

subsection \<open>Two openings\<close>

text \<open>Three placements followed by a pass of white and two passes of black (six
  logged moves, the last two of them passes of black).\<close>

definition passedOpening :: gameState where
  "passedOpening =
     \<lparr>gs_board = (replicate 15 (replicate 15 Null))
                   [7 := (replicate 15 Null)[7 := Black], 6 := (replicate 15 Null)[7 := White],
                    8 := (replicate 15 Null)[7 := Black] ],
      gs_moves = [placement 7 7 Black, placement 6 7 White, placement 8 7 Black,
                  passMove White, passMove Black, passMove Black]\<rparr>"

text \<open>The six placements of the engine's own test of the seventh move.\<close>

definition forcedPair :: gameState where
  "forcedPair =
     \<lparr>gs_board = (replicate 15 (replicate 15 Null))
                   [7 := (replicate 15 Null)[7 := Black], 6 := (replicate 15 Null)[7 := White],
                    8 := (replicate 15 Null)[7 := Black], 3 := (replicate 15 Null)[7 := White],
                    9 := (replicate 15 Null)[7 := Black], 5 := (replicate 15 Null)[7 := Black] ],
      gs_moves = [placement 7 7 Black, placement 6 7 White, placement 8 7 Black,
                  placement 3 7 White, placement 9 7 Black, placement 5 7 Black]\<rparr>"

subsection \<open>Positions with a double four and a pass\<close>

text \<open>The engine's own test position ``double four for black that was made earlier''
  (the opening of \<^verbatim>\<open>simulateOpening\<close>, black's double four at (2, 3), white at
  (10, 9)), followed by a pass of black.\<close>

definition fourThenPass :: gameState where
  "fourThenPass =
     \<lparr>gs_board =
        [ [Null, Null, Null, Null, Null, Null, Null, Null, White, Null, Null, Null, Null, Null, Null],
         [Null, Null, Null, Black, Null, Null, Null, Null, Null, Null, Null, Null, Null, Null, Null],
         [Null, Null, Null, Black, Black, Black, Black, White, White, Null, Null, Null, Null, Null, Null],
         [Null, Null, Null, Black, Null, Null, Null, Null, White, Null, Null, Null, Null, Null, Null],
         [Null, Null, Null, Black, Null, Null, Null, Null, White, Null, Null, Null, Null, Null, Null],
         [Null, Null, Null, Null, Null, Null, Null, Null, Null, Null, Null, Null, Null, Null, Null],
         [Null, Null, Null, Null, Null, Null, Null, White, White, Black, Null, Null, Null, Null, Null],
         [Null, Null, Null, Null, Null, Null, White, Black, Black, Removed, Null, Null, Null, Null, Null],
         [Null, Null, Null, Null, Null, Null, Null, Null, Null, Null, Null, Null, Null, Null, Null],
         [Null, Null, Null, Null, Null, Null, Null, Null, Null, Null, Null, Null, Null, Null, Null],
         [Null, Null, Null, Null, Null, Null, White, Null, Null, White, Null, Null, Null, Null, Null],
         [Null, Null, Null, Null, Null, Null, Null, Null, Null, Null, Null, Null, Null, Null, Null],
         [Null, Null, Null, Null, Null, Null, Null, Null, Null, Null, Null, Null, Null, Null, Null],
         [Null, Null, Null, Null, Null, Null, Null, Null, Null, Null, Null, Null, Null, Null, Null],
         [Null, Null, Null, Null, Null, Null, Null, Null, Null, Null, Null, Null, Null, Null, Null] ],
      gs_moves =
        [placement 7 7 Black, placement 6 7 White, placement 7 8 Black,
         placement 6 8 White, placement 7 9 Black, placement 6 9 Black, removal 7 9,
         placement 7 6 White, placement 1 3 Black, placement 0 8 White,
         placement 2 3 Black, placement 3 8 White, placement 3 3 Black,
         placement 4 8 White, placement 4 3 Black, placement 10 6 White,
         placement 2 4 Black, placement 2 7 White, placement 2 5 Black,
         placement 2 8 White, placement 2 6 Black, placement 10 9 White, passMove Black]\<rparr>"

definition fourThenPass_actions :: "action list" where
  "fourThenPass_actions =
     [Ply Black 7 7, Ply White 6 7, Ply Black 7 8, Ply White 6 8, Ply Black 7 9,
      Ply Black 6 9, Remove 7 9, Ply White 7 6, Ply Black 1 3, Ply White 0 8,
      Ply Black 2 3, Ply White 3 8, Ply Black 3 3, Ply White 4 8, Ply Black 4 3,
      Ply White 10 6, Ply Black 2 4, Ply White 2 7, Ply Black 2 5, Ply White 2 8,
      Ply Black 2 6, Ply White 10 9, Pass Black]"

text \<open>The same game with white's last stone at (5, 8) instead, which completes five
  white stones in column 8, again followed by a pass of black.\<close>

definition fourFiveThenPass :: gameState where
  "fourFiveThenPass =
     \<lparr>gs_board =
        [ [Null, Null, Null, Null, Null, Null, Null, Null, White, Null, Null, Null, Null, Null, Null],
         [Null, Null, Null, Black, Null, Null, Null, Null, Null, Null, Null, Null, Null, Null, Null],
         [Null, Null, Null, Black, Black, Black, Black, White, White, Null, Null, Null, Null, Null, Null],
         [Null, Null, Null, Black, Null, Null, Null, Null, White, Null, Null, Null, Null, Null, Null],
         [Null, Null, Null, Black, Null, Null, Null, Null, White, Null, Null, Null, Null, Null, Null],
         [Null, Null, Null, Null, Null, Null, Null, Null, White, Null, Null, Null, Null, Null, Null],
         [Null, Null, Null, Null, Null, Null, Null, White, White, Black, Null, Null, Null, Null, Null],
         [Null, Null, Null, Null, Null, Null, White, Black, Black, Removed, Null, Null, Null, Null, Null],
         [Null, Null, Null, Null, Null, Null, Null, Null, Null, Null, Null, Null, Null, Null, Null],
         [Null, Null, Null, Null, Null, Null, Null, Null, Null, Null, Null, Null, Null, Null, Null],
         [Null, Null, Null, Null, Null, Null, White, Null, Null, Null, Null, Null, Null, Null, Null],
         [Null, Null, Null, Null, Null, Null, Null, Null, Null, Null, Null, Null, Null, Null, Null],
         [Null, Null, Null, Null, Null, Null, Null, Null, Null, Null, Null, Null, Null, Null, Null],
         [Null, Null, Null, Null, Null, Null, Null, Null, Null, Null, Null, Null, Null, Null, Null],
         [Null, Null, Null, Null, Null, Null, Null, Null, Null, Null, Null, Null, Null, Null, Null] ],
      gs_moves =
        [placement 7 7 Black, placement 6 7 White, placement 7 8 Black,
         placement 6 8 White, placement 7 9 Black, placement 6 9 Black, removal 7 9,
         placement 7 6 White, placement 1 3 Black, placement 0 8 White,
         placement 2 3 Black, placement 3 8 White, placement 3 3 Black,
         placement 4 8 White, placement 4 3 Black, placement 10 6 White,
         placement 2 4 Black, placement 2 7 White, placement 2 5 Black,
         placement 2 8 White, placement 2 6 Black, placement 5 8 White, passMove Black]\<rparr>"

definition fourFiveThenPass_actions :: "action list" where
  "fourFiveThenPass_actions =
     [Ply Black 7 7, Ply White 6 7, Ply Black 7 8, Ply White 6 8, Ply Black 7 9,
      Ply Black 6 9, Remove 7 9, Ply White 7 6, Ply Black 1 3, Ply White 0 8,
      Ply Black 2 3, Ply White 3 8, Ply Black 3 3, Ply White 4 8, Ply Black 4 3,
      Ply White 10 6, Ply Black 2 4, Ply White 2 7, Ply Black 2 5, Ply White 2 8,
      Ply Black 2 6, Ply White 5 8, Pass Black]"

subsection \<open>Runs of stones\<close>

text \<open>The number of leading elements of a list equal to \<open>c\<close>, and the existence of
  \<open>n\<close> consecutive elements equal to \<open>c\<close>.\<close>

definition lead :: "'a \<Rightarrow> 'a list \<Rightarrow> nat" where
  "lead c xs = length (takeWhile (\<lambda>x. x = c) xs)"

definition has_run :: "'a \<Rightarrow> nat \<Rightarrow> 'a list \<Rightarrow> bool" where
  "has_run c n xs = (\<exists>p. p + n \<le> length xs \<and> (\<forall>i<n. xs ! (p + i) = c))"








text \<open>The cells of a board and the four axes: horizontal, vertical and the two
  diagonals.\<close>

definition cells :: "board \<Rightarrow> (int \<times> int) list" where
  "cells b = concat (map (\<lambda>r. map (\<lambda>k. (int r, int k)) [0..<length (b ! r)]) [0..<length b])"




subsection \<open>Positions with five black stones in a row\<close>



text \<open>The engine's own test position ``5 in a row for black'': black on rows 1 to 5
  of column 3.\<close>

definition fiveBlack :: gameState where
  "fiveBlack =
     \<lparr>gs_board =
        [ [Null, Null, Null, Null, Null, Null, Null, Null, White, Null, Null, Null, Null, Null, Null],
         [Null, Null, Null, Black, Null, Null, Null, Null, Null, Null, Null, Null, Null, Null, Null],
         [Null, Null, Null, Black, Null, Null, White, Null, Null, Null, Null, Null, Null, Null, Null],
         [Null, Null, Null, Black, Null, Null, Null, Null, White, Null, Null, Null, Null, Null, Null],
         [Null, Null, Null, Black, Null, Null, Null, Null, White, Null, Null, Null, Null, Null, Null],
         [Null, Null, Null, Black, Null, Null, Null, Null, Null, Null, Null, Null, Null, Null, Null],
         [Null, Null, Null, Null, Null, Null, Null, White, White, Black, Null, Null, Null, Null, Null],
         [Null, Null, Null, Null, Null, Null, White, Black, Black, Removed, Null, Null, Null, Null, Null],
         [Null, Null, Null, Null, Null, Null, Null, Null, Null, Null, Null, Null, Null, Null, Null],
         [Null, Null, Null, Null, Null, Null, Null, Null, Null, Null, Null, Null, Null, Null, Null],
         [Null, Null, Null, Null, Null, Null, Null, Null, Null, Null, Null, Null, Null, Null, Null],
         [Null, Null, Null, Null, Null, Null, Null, Null, Null, Null, Null, Null, Null, Null, Null],
         [Null, Null, Null, Null, Null, Null, Null, Null, Null, Null, Null, Null, Null, Null, Null],
         [Null, Null, Null, Null, Null, Null, Null, Null, Null, Null, Null, Null, Null, Null, Null],
         [Null, Null, Null, Null, Null, Null, Null, Null, Null, Null, Null, Null, Null, Null, Null] ],
      gs_moves =
        [placement 7 7 Black, placement 6 7 White, placement 7 8 Black,
         placement 6 8 White, placement 7 9 Black, placement 6 9 Black, removal 7 9,
         placement 7 6 White, placement 1 3 Black, placement 0 8 White,
         placement 2 3 Black, placement 3 8 White, placement 3 3 Black,
         placement 4 8 White, placement 4 3 Black, placement 2 6 White,
         placement 5 3 Black]\<rparr>"

definition fiveBlack_actions :: "action list" where
  "fiveBlack_actions =
     [Ply Black 7 7, Ply White 6 7, Ply Black 7 8, Ply White 6 8, Ply Black 7 9,
      Ply Black 6 9, Remove 7 9, Ply White 7 6, Ply Black 1 3, Ply White 0 8,
      Ply Black 2 3, Ply White 3 8, Ply Black 3 3, Ply White 4 8, Ply Black 4 3,
      Ply White 2 6, Ply Black 5 3]"

subsection \<open>The engine on a store of arrays\<close>

text \<open>
  The functions above take boards and logs as values. The source takes references
  to arrays and writes into arrays (\<^verbatim>\<open>board[row][column] = ...\<close>, \<^verbatim>\<open>moves.push(...)\<close>).
  To state what a call does to the arrays of its caller, the three attempt
  operations are given a second time over a store: a list of array objects in which
  an address is an index and an allocation appends an object. A board is an array
  of references to row arrays. Move objects are never written by the engine and
  are held by value in the log array. The arrays that a call builds and drops
  before it returns (by \<^verbatim>\<open>map\<close>, \<^verbatim>\<open>slice\<close>, \<^verbatim>\<open>R.update\<close>) are not written after they
  are filled, and are computed as values.
\<close>

type_synonym addr = nat

datatype obj = Rows "addr list" | Cells "playerColour list" | Log "move list"

type_synonym store = "obj list"

record gameStateRef =
  boardRef :: addr
  movesRef :: addr

record attemptedMoveRef =
  amr_gameState :: "gameStateRef option"
  amr_valid :: bool

text \<open>Reading the store: the three kinds of array, the board and the position
  behind a reference.\<close>

definition rowsOf :: "store \<Rightarrow> addr \<Rightarrow> addr list" where
  "rowsOf s a = (if a < length s then (case s ! a of Rows rs \<Rightarrow> rs | _ \<Rightarrow> []) else [])"

definition cellsOf :: "store \<Rightarrow> addr \<Rightarrow> playerColour list" where
  "cellsOf s a = (if a < length s then (case s ! a of Cells cs \<Rightarrow> cs | _ \<Rightarrow> []) else [])"

definition logOf :: "store \<Rightarrow> addr \<Rightarrow> move list" where
  "logOf s a = (if a < length s then (case s ! a of Log ms \<Rightarrow> ms | _ \<Rightarrow> []) else [])"

definition boardOf :: "store \<Rightarrow> addr \<Rightarrow> board" where
  "boardOf s a = map (cellsOf s) (rowsOf s a)"

definition positionOf :: "store \<Rightarrow> gameStateRef \<Rightarrow> gameState" where
  "positionOf s g = \<lparr>gs_board = boardOf s (boardRef g), gs_moves = logOf s (movesRef g)\<rparr>"

text \<open>A reference to a position whose arrays are in the store.\<close>

definition validRef :: "store \<Rightarrow> gameStateRef \<Rightarrow> bool" where
  "validRef s g =
     (boardRef g < length s
      \<and> (\<exists>rs. s ! boardRef g = Rows rs
            \<and> (\<forall>r \<in> set rs. r < length s \<and> (\<exists>cs. s ! r = Cells cs)))
      \<and> movesRef g < length s \<and> (\<exists>ms. s ! movesRef g = Log ms))"

text \<open>The addresses of the arrays of a position.\<close>

definition refsOf :: "store \<Rightarrow> gameStateRef \<Rightarrow> addr set" where
  "refsOf s g = {boardRef g, movesRef g} \<union> set (rowsOf s (boardRef g))"

text \<open>Every object of \<open>s\<close> is in \<open>s'\<close> at its address, unchanged.\<close>

definition extends :: "store \<Rightarrow> store \<Rightarrow> bool" where
  "extends s s' = (length s \<le> length s' \<and> (\<forall>a < length s. s' ! a = s ! a))"

text \<open>\<^verbatim>\<open>R.clone\<close> of a board (a copy of every row, then the array of the copies) and
  of a log.\<close>

definition cloneBoard :: "store \<Rightarrow> addr \<Rightarrow> store \<times> addr" where
  "cloneBoard s a =
     (let rows = rowsOf s a;
          s1 = s @ map (\<lambda>r. Cells (cellsOf s r)) rows
      in (s1 @ [Rows [length s..<length s + length rows]], length s1))"

definition cloneMoves :: "store \<Rightarrow> addr \<Rightarrow> store \<times> addr" where
  "cloneMoves s a = (s @ [Log (logOf s a)], length s)"

text \<open>\<^verbatim>\<open>board[row][column] = v\<close> and \<^verbatim>\<open>moves.push(m)\<close> through references.\<close>

definition assignCell :: "store \<Rightarrow> addr \<Rightarrow> int \<Rightarrow> int \<Rightarrow> playerColour \<Rightarrow> error + store" where
  "assignCell s a row column v =
     (case js_index (rowsOf s a) row of
        None \<Rightarrow> Inl TypeError
      | Some r \<Rightarrow> Inr (s[r := Cells (js_assign (cellsOf s r) column v)]))"

definition pushMove :: "store \<Rightarrow> addr \<Rightarrow> move \<Rightarrow> store" where
  "pushMove s a m = s[a := Log (logOf s a @ [m])]"

text \<open>\<^verbatim>\<open>checkMoveThree\<close>: the clone and the write of the candidate stone happen in
  the store; the scan reads the clone.\<close>

definition checkMoveThree_store ::
  "playerColour \<Rightarrow> int \<Rightarrow> int \<Rightarrow> store \<Rightarrow> addr \<Rightarrow> (store \<times> (error + bool)) option" where
  "checkMoveThree_store playerColour row column s board =
     (if playerColour = White then Some (s, Inr False)
      else
        (case cloneBoard s board of (s1, newBoard) \<Rightarrow>
           (case assignCell s1 newBoard row column playerColour of
              Inl e \<Rightarrow> Some (s1, Inl e)
            | Inr s2 \<Rightarrow>
                (case checkMoveThree_scan (boardOf s2 newBoard) of
                   None \<Rightarrow> None
                 | Some result \<Rightarrow> Some (s2, result)))))"

definition isMoveValid_store ::
  "playerColour \<Rightarrow> int \<Rightarrow> int \<Rightarrow> store \<Rightarrow> gameStateRef \<Rightarrow> (store \<times> (error + bool)) option" where
  "isMoveValid_store playerColour row column s gameState =
     (let board = boardOf s (boardRef gameState) in
      case readCell board row column of
        Inl e \<Rightarrow> Some (s, Inl e)
      | Inr cell \<Rightarrow>
          if cell \<noteq> Null \<and> cell \<noteq> Removed then Some (s, Inr False)
          else
            (case getBoardRowNumber board of
               Inl e \<Rightarrow> Some (s, Inl e)
             | Inr rowNumber \<Rightarrow>
                 let nextMoveNumber = nextMoveNumber (positionOf s gameState);
                     columnMiddle = int (half (getBoardColumnNumber board));
                     rowMiddle = int (half rowNumber)
                 in if nextMoveNumber = 1 then
                      Some (s, Inr (column = columnMiddle \<and> row = rowMiddle \<and> playerColour = Black))
                    else if nextMoveNumber = 2 then
                      Some (s, Inr (isNextTo rowMiddle columnMiddle row column
                                     \<and> playerColour = White))
                    else if nextMoveNumber = 3 then
                      checkMoveThree_store playerColour row column s (boardRef gameState)
                    else if nextMoveNumber = 4 then Some (s, Inr (playerColour = White))
                    else if nextMoveNumber = 5 then Some (s, Inr (playerColour = Black))
                    else if nextMoveNumber = 6 then Some (s, Inr (playerColour = Black))
                    else if nextMoveNumber = 7 then
                      Some (s, Inr (checkMoveSeven playerColour row column board))
                    else Some (s, Inr (checkNormalMove playerColour (positionOf s gameState)))))"

definition invalid_store :: attemptedMoveRef where
  "invalid_store = \<lparr>amr_gameState = None, amr_valid = False\<rparr>"

definition accepted_store :: "addr \<Rightarrow> addr \<Rightarrow> attemptedMoveRef" where
  "accepted_store board moves =
     \<lparr>amr_gameState = Some \<lparr>boardRef = board, movesRef = moves\<rparr>, amr_valid = True\<rparr>"

definition attemptPly_store ::
  "playerColour \<Rightarrow> int \<Rightarrow> int \<Rightarrow> store \<Rightarrow> gameStateRef
     \<Rightarrow> (store \<times> (error + attemptedMoveRef)) option" where
  "attemptPly_store playerColour row column s gameState =
     (case isMoveValid_store playerColour row column s gameState of
        None \<Rightarrow> None
      | Some (s0, Inl e) \<Rightarrow> Some (s0, Inl e)
      | Some (s0, Inr ok) \<Rightarrow>
          if ok then
            (case cloneBoard s0 (boardRef gameState) of (s1, board) \<Rightarrow>
             case cloneMoves s1 (movesRef gameState) of (s2, moves) \<Rightarrow>
             let s3 = pushMove s2 moves (placement row column playerColour)
             in (case assignCell s3 board row column playerColour of
                   Inl e \<Rightarrow> Some (s3, Inl e)
                 | Inr s4 \<Rightarrow> Some (s4, Inr (accepted_store board moves))))
          else Some (s0, Inr invalid_store))"

definition attemptRemove_store ::
  "int \<Rightarrow> int \<Rightarrow> store \<Rightarrow> gameStateRef \<Rightarrow> store \<times> (error + attemptedMoveRef)" where
  "attemptRemove_store row column s gameState =
     (case cloneBoard s (boardRef gameState) of (s1, board) \<Rightarrow>
      case cloneMoves s1 (movesRef gameState) of (s2, moves) \<Rightarrow>
      let log = logOf s2 moves in
      if movesMade (positionOf s2 gameState) \<noteq> 6 then (s2, Inr invalid_store)
      else
        let previousMove = log ! (length log - 1);
            secondPreviousMove = log ! (length log - 2)
        in if \<not> ((m_row previousMove = row \<and> m_column previousMove = column)
                  \<or> (m_row secondPreviousMove = row \<and> m_column secondPreviousMove = column))
           then (s2, Inr invalid_store)
           else
             let s3 = pushMove s2 moves (removal row column)
             in (case assignCell s3 board row column Removed of
                   Inl e \<Rightarrow> (s3, Inl e)
                 | Inr s4 \<Rightarrow> (s4, Inr (accepted_store board moves))))"

definition attemptPass_store ::
  "playerColour \<Rightarrow> store \<Rightarrow> gameStateRef \<Rightarrow> store \<times> attemptedMoveRef" where
  "attemptPass_store playerColour s gameState =
     (if movesMade (positionOf s gameState) < 3 then (s, invalid_store)
      else if \<not> checkNormalMove playerColour (positionOf s gameState) then (s, invalid_store)
      else
        (case cloneBoard s (boardRef gameState) of (s1, board) \<Rightarrow>
         case cloneMoves s1 (movesRef gameState) of (s2, moves) \<Rightarrow>
         let s3 = pushMove s2 moves (passMove playerColour)
         in (s3, accepted_store board moves)))"

text \<open>The attempt a caller reads from a result and the final store.\<close>

definition attemptOf :: "store \<Rightarrow> attemptedMoveRef \<Rightarrow> attemptedMove" where
  "attemptOf s a =
     \<lparr>am_gameState = map_option (positionOf s) (amr_gameState a), am_valid = amr_valid a\<rparr>"

text \<open>A board, and a log, all of whose arrays lie at addresses from \<open>n\<close> on.\<close>

definition freshBoard :: "nat \<Rightarrow> store \<Rightarrow> addr \<Rightarrow> bool" where
  "freshBoard n s a =
     (n \<le> a \<and> a < length s
      \<and> (\<exists>rs. s ! a = Rows rs \<and> distinct rs \<and> a \<notin> set rs
            \<and> (\<forall>r \<in> set rs. n \<le> r \<and> r < length s \<and> (\<exists>cs. s ! r = Cells cs))))"

definition freshLog :: "nat \<Rightarrow> store \<Rightarrow> addr \<Rightarrow> bool" where
  "freshLog n s a = (n \<le> a \<and> a < length s \<and> (\<exists>ms. s ! a = Log ms))"

text \<open>The position behind \<open>g\<close> is made of arrays allocated after \<open>s\<close>.\<close>

definition newlyBuilt :: "store \<Rightarrow> store \<Rightarrow> gameStateRef \<Rightarrow> bool" where
  "newlyBuilt s s' g = (validRef s' g \<and> (\<forall>a \<in> refsOf s' g. length s \<le> a))"

text \<open>
  What a call that started in store \<open>s\<close> with the position reference \<open>g\<close> and ended
  in store \<open>s'\<close> with \<open>result\<close> has left behind: every object of \<open>s\<close> unchanged, so
  the position behind \<open>g\<close> as it was; a valid attempt carries a newly built
  position, an invalid one carries none.
\<close>

definition leavesInput ::
  "store \<Rightarrow> gameStateRef \<Rightarrow> store \<Rightarrow> error + attemptedMoveRef \<Rightarrow> bool" where
  "leavesInput s g s' result =
     (extends s s' \<and> positionOf s' g = positionOf s g
      \<and> (case result of
            Inl e \<Rightarrow> True
          | Inr a \<Rightarrow> if amr_valid a
                     then (\<exists>g'. amr_gameState a = Some g' \<and> newlyBuilt s s' g')
                     else amr_gameState a = None))"

text \<open>A store holding the empty 3 by 3 position.\<close>

definition smallStore :: store where
  "smallStore = [Cells [Null, Null, Null], Cells [Null, Null, Null], Cells [Null, Null, Null],
                 Rows [0, 1, 2], Log []]"

definition smallGame :: gameStateRef where
  "smallGame = \<lparr>boardRef = 3, movesRef = 4\<rparr>"

section \<open>Properties\<close>

subsection \<open>The colour to move\<close>

text \<open>
  C4. \<^verbatim>\<open>colourToMove\<close> follows the parity of the number of moves made when that
  number is at most 4 or at least 7 (even: black, odd: white), and the opposite
  parity when it is 5 or 6 (even: white, odd: black); so black is to move after
  5 moves and white after 6.
\<close>

theorem colourToMove_schedule:
  "colourToMove gameState =
     (if movesMade gameState \<le> 4 \<or> movesMade gameState \<ge> 7
      then (if even (movesMade gameState) then Black else White)
      else (if even (movesMade gameState) then White else Black))
   \<and> (movesMade gameState \<le> 4 \<or> movesMade gameState \<ge> 7 \<or> movesMade gameState \<in> {5, 6})
   \<and> (movesMade gameState = 5 \<longrightarrow> colourToMove gameState = Black)
   \<and> (movesMade gameState = 6 \<longrightarrow> colourToMove gameState = White)"
  by (auto simp: colourToMove_def Let_def even_iff_mod_2_eq_zero)

theorem colourToMove_schedule_witness:
  "movesMade \<lparr>gs_board = [replicate 1 Null], gs_moves = replicate 5 (passMove Black)\<rparr> = 5
   \<and> colourToMove \<lparr>gs_board = [replicate 1 Null], gs_moves = replicate 5 (passMove Black)\<rparr> = Black"
  using colourToMove_schedule
    [of "\<lparr>gs_board = [replicate 1 Null], gs_moves = replicate 5 (passMove Black)\<rparr>"]
  by (simp add: movesMade_def)

subsection \<open>Construction\<close>

text \<open>
  C8. Constructing a game of width \<open>w\<close> and height \<open>h\<close> throws (the error of
  \<^verbatim>\<open>createBoard\<close>) exactly when \<open>w\<close> or \<open>h\<close> is even; when both are odd the result
  is a position with \<open>w\<close> rows of \<open>h\<close> cells, all of them empty, and an empty move
  list. (Dimensions are natural numbers; the engine's limit on the length of an
  array is not part of the model.)
\<close>

theorem initiateGame_parity:
  "((\<exists>e. initiateGame w h Null = Inl e) \<longleftrightarrow> even w \<or> even h)
   \<and> (initiateGame w h Null = Inl DimensionsError \<longleftrightarrow> even w \<or> even h)
   \<and> (odd w \<and> odd h \<longrightarrow>
        (\<exists>gs. initiateGame w h Null = Inr gs
           \<and> length (gs_board gs) = w
           \<and> (\<forall>row \<in> set (gs_board gs). length row = h \<and> (\<forall>cell \<in> set row. cell = Null))
           \<and> gs_moves gs = []))"
  by (auto simp: initiateGame_def createBoard_def even_iff_mod_2_eq_zero)

theorem initiateGame_parity_witness:
  "odd (3::nat) \<and> odd (5::nat)
   \<and> (\<exists>gs. initiateGame 3 5 Null = Inr gs \<and> length (gs_board gs) = 3 \<and> gs_moves gs = [])
   \<and> initiateGame 4 5 Null = Inl DimensionsError"
  using initiateGame_parity [of 3 5] initiateGame_parity [of 4 5]
  by auto

subsection \<open>Coordinates outside the board\<close>

text \<open>
  C9. With a row index outside the board \<^verbatim>\<open>isMoveValid\<close>, and with it
  \<^verbatim>\<open>attemptPly\<close>, throws a \<^verbatim>\<open>TypeError\<close>; with a row index inside the board and a
  column index outside that row, \<^verbatim>\<open>isMoveValid\<close> returns \<^verbatim>\<open>false\<close> and \<^verbatim>\<open>attemptPly\<close>
  returns \<^verbatim>\<open>{valid: false}\<close>.
\<close>

theorem isMoveValid_outside:
  "(row < 0 \<or> row \<ge> int (length (gs_board gameState)) \<longrightarrow>
      isMoveValid playerColour row column gameState = Some (Inl TypeError)
      \<and> attemptPly playerColour row column gameState = Some (Inl TypeError))
   \<and> (0 \<le> row \<and> row < int (length (gs_board gameState))
       \<and> (column < 0 \<or> column \<ge> int (length (gs_board gameState ! nat row))) \<longrightarrow>
      isMoveValid playerColour row column gameState = Some (Inr False)
      \<and> attemptPly playerColour row column gameState = Some (Inr invalid))"
  by (auto simp: isMoveValid_def attemptPly_def readCell_def js_index_def cellAt_def Let_def)

theorem isMoveValid_outside_witness:
  "isMoveValid Black 3 0 \<lparr>gs_board = replicate 3 (replicate 3 Null), gs_moves = []\<rparr>
     = Some (Inl TypeError)
   \<and> isMoveValid Black 1 (- 1) \<lparr>gs_board = replicate 3 (replicate 3 Null), gs_moves = []\<rparr>
     = Some (Inr False)"
  using isMoveValid_outside
    [where row = 3 and column = 0 and playerColour = Black
       and gameState = "\<lparr>gs_board = replicate 3 (replicate 3 Null), gs_moves = []\<rparr>"]
    isMoveValid_outside
    [where row = 1 and column = "- 1" and playerColour = Black
       and gameState = "\<lparr>gs_board = replicate 3 (replicate 3 Null), gs_moves = []\<rparr>"]
  by simp

subsection \<open>The third move\<close>

lemma verticalOpening_reached:
  "initiateGame 15 15 Null = Inr (emptyPosition 15 15)
   \<and> play [Ply Black 7 7, Ply White 6 7] (emptyPosition 15 15) = Some verticalOpening"
proof
  show "initiateGame 15 15 Null = Inr (emptyPosition 15 15)"
    by (simp add: initiateGame_def createBoard_def emptyPosition_def)
  show "play [Ply Black 7 7, Ply White 6 7] (emptyPosition 15 15) = Some verticalOpening"
    by code_simp
qed

lemma moveThree_cells:
  "list_all (\<lambda>row. list_all (\<lambda>column.
       isMoveValid Black row column verticalOpening = Some (Inr (legalMoveThree row column))
     \<and> isMoveValid White row column verticalOpening = Some (Inr False)) [0..14]) [0..14]"
  by code_simp

text \<open>
  C3, as stated, fails: after black at (7, 7) and white at (6, 7) on the 15 by 15
  board the engine also accepts black at (9, 9), which is not among the listed cells.
\<close>

theorem moveThree_claimed_counterexample:
  "initiateGame 15 15 Null = Inr (emptyPosition 15 15)
   \<and> play [Ply Black 7 7, Ply White 6 7] (emptyPosition 15 15) = Some verticalOpening
   \<and> isMoveValid Black 9 9 verticalOpening = Some (Inr True)
   \<and> \<not> claimedMoveThree 9 9"
proof -
  have "isMoveValid Black 9 9 verticalOpening = Some (Inr True)" by code_simp
  moreover have "\<not> claimedMoveThree 9 9" by (simp add: claimedMoveThree_def)
  ultimately show ?thesis using verticalOpening_reached by simp
qed

text \<open>
  C3, amended. On the 15 by 15 board, after black at (7, 7) and white at (6, 7),
  \<^verbatim>\<open>isMoveValid\<close> at move 3 is true for black exactly at rows 5 to 9 of columns 8
  and 9 and at rows 5, 8 and 9 of column 7, and false for white at every cell.
\<close>

theorem moveThree_vertical:
  "initiateGame 15 15 Null = Inr (emptyPosition 15 15)
   \<and> play [Ply Black 7 7, Ply White 6 7] (emptyPosition 15 15) = Some verticalOpening
   \<and> (\<forall>row \<in> {0..14}. \<forall>column \<in> {0..14}.
         isMoveValid Black row column verticalOpening = Some (Inr (legalMoveThree row column))
       \<and> isMoveValid White row column verticalOpening = Some (Inr False))"
proof -
  have s: "{0..14} = set [0..(14::int)]" by simp
  have "\<forall>row \<in> {0..14}. \<forall>column \<in> {0..14}.
         isMoveValid Black row column verticalOpening = Some (Inr (legalMoveThree row column))
       \<and> isMoveValid White row column verticalOpening = Some (Inr False)"
    unfolding s using moveThree_cells unfolding list_all_iff by blast
  then show ?thesis using verticalOpening_reached by blast
qed

theorem moveThree_vertical_witness:
  "isMoveValid Black 9 8 verticalOpening = Some (Inr True)
   \<and> isMoveValid Black 6 7 verticalOpening = Some (Inr False)
   \<and> isMoveValid White 9 8 verticalOpening = Some (Inr False)"
proof -
  have a: "\<forall>row \<in> {0..14}. \<forall>column \<in> {0..14}.
         isMoveValid Black row column verticalOpening = Some (Inr (legalMoveThree row column))
       \<and> isMoveValid White row column verticalOpening = Some (Inr False)"
    using moveThree_vertical by blast
  have "(9::int) \<in> {0..14}" "(8::int) \<in> {0..14}" "(6::int) \<in> {0..14}" "(7::int) \<in> {0..14}"
    by simp_all
  with a have "isMoveValid Black 9 8 verticalOpening = Some (Inr (legalMoveThree 9 8))"
    "isMoveValid Black 6 7 verticalOpening = Some (Inr (legalMoveThree 6 7))"
    "isMoveValid White 9 8 verticalOpening = Some (Inr False)"
    by blast+
  then show ?thesis by (simp add: legalMoveThree_def)
qed

subsection \<open>The log and the board\<close>

lemma readCell_Inr:
  "readCell b r c = Inr v \<Longrightarrow> v \<noteq> Undefined \<Longrightarrow>
     0 \<le> r \<and> r < int (length b) \<and> 0 \<le> c \<and> c < int (length (b ! nat r)) \<and> b ! nat r ! nat c = v"
  by (auto simp: readCell_def js_index_def cellAt_def split: if_splits option.splits)

lemma isMoveValid_True_inside:
  assumes "isMoveValid pc r c gs = Some (Inr True)"
  shows "0 \<le> r \<and> r < int (length (gs_board gs)) \<and> 0 \<le> c \<and> c < int (length (gs_board gs ! nat r))"
proof -
  from assms obtain v where v: "readCell (gs_board gs) r c = Inr v" "v = Null \<or> v = Removed"
    by (auto simp: isMoveValid_def Let_def split: sum.splits if_splits)
  then show ?thesis using readCell_Inr[of "gs_board gs" r c v] by auto
qed

lemma writeCell_inside:
  "0 \<le> r \<Longrightarrow> r < int (length b) \<Longrightarrow> 0 \<le> c \<Longrightarrow> c < int (length (b ! nat r)) \<Longrightarrow>
     writeCell b r c v = Inr (b[nat r := (b ! nat r)[nat c := v]])"
  by (simp add: writeCell_def js_index_def js_assign_def)

lemma writeCell_Inr_row:
  "writeCell b r c v = Inr b' \<Longrightarrow> 0 \<le> r \<and> r < int (length b)"
  by (auto simp: writeCell_def js_index_def split: if_splits option.splits)

lemma replay_snoc: "replay w h (ms @ [m]) = applyMove (replay w h ms) m"
  by (simp add: replay_def)

lemma consistent_update:
  assumes "consistent w h gs" "0 \<le> r" "r < int (length (gs_board gs))" "0 \<le> c"
    "c < int (length (gs_board gs ! nat r))"
    "m_row m = r" "m_column m = c" "v = (if m_removed m then Removed else m_playerColour m)"
  shows "consistent w h \<lparr>gs_board = (gs_board gs)[nat r := (gs_board gs ! nat r)[nat c := v]],
                         gs_moves = gs_moves gs @ [m]\<rparr>"
proof -
  let ?b = "gs_board gs"
  from assms have len: "length ?b = w" and rows: "\<forall>cells \<in> set ?b. length cells = h"
    and b: "?b = replay w h (gs_moves gs)" by (auto simp: consistent_def)
  have rh: "length (?b ! nat r) = h" using rows assms(2,3) by simp
  have "\<forall>cells \<in> set (?b[nat r := (?b ! nat r)[nat c := v]]). length cells = h"
    using rows rh by (auto dest!: set_update_subset_insert[THEN subsetD])
  moreover have "replay w h (gs_moves gs @ [m]) = ?b[nat r := (?b ! nat r)[nat c := v]]"
    using assms(2,4,6,7,8) b by (auto simp: replay_snoc applyMove_def)
  moreover have "0 \<le> m_row m \<and> m_row m < int w \<and> 0 \<le> m_column m \<and> m_column m < int h"
    using assms len rh by auto
  ultimately show ?thesis using assms(1) len by (auto simp: consistent_def)
qed

lemma attemptPly_consistent:
  assumes "attemptPly pc r c gs = Some (Inr am)" "am_valid am" "am_gameState am = Some gs'"
    "consistent w h gs"
  shows "consistent w h gs' \<and> length (gs_moves gs') = Suc (length (gs_moves gs))"
proof -
  from assms(1,2) have ok: "isMoveValid pc r c gs = Some (Inr True)"
    by (auto simp: attemptPly_def invalid_def split: option.splits sum.splits if_splits)
  note ins = isMoveValid_True_inside[OF ok]
  then have w: "writeCell (gs_board gs) r c pc
                 = Inr ((gs_board gs)[nat r := (gs_board gs ! nat r)[nat c := pc]])"
    by (simp add: writeCell_inside)
  from assms(1,3) ok w have gs': "gs' = \<lparr>gs_board = (gs_board gs)[nat r := (gs_board gs ! nat r)[nat c := pc]],
                 gs_moves = gs_moves gs @ [placement r c pc]\<rparr>"
    by (auto simp: attemptPly_def bindE_def accepted_def Let_def)
  show ?thesis unfolding gs'
    using consistent_update[OF assms(4), of r c "placement r c pc" pc] ins
    by (simp add: placement_def)
qed

lemma attemptRemove_consistent:
  assumes "attemptRemove r c gs = Inr am" "am_valid am" "am_gameState am = Some gs'"
    "consistent w h gs"
  shows "consistent w h gs' \<and> length (gs_moves gs') = Suc (length (gs_moves gs))"
proof -
  let ?ms = "gs_moves gs"
  from assms(1,2) have six: "length ?ms = 6"
    and hit: "(m_row (?ms ! 5) = r \<and> m_column (?ms ! 5) = c) \<or> (m_row (?ms ! 4) = r \<and> m_column (?ms ! 4) = c)"
    by (auto simp: attemptRemove_def invalid_def movesMade_def Let_def split: if_splits)
  from assms(1,2) six hit obtain b' where b': "writeCell (gs_board gs) r c Removed = Inr b'"
    and am: "am = accepted b' (?ms @ [removal r c])"
    by (auto simp: attemptRemove_def invalid_def movesMade_def Let_def bindE_def split: if_splits sum.splits)
  from writeCell_Inr_row[OF b'] have r: "0 \<le> r" "r < int (length (gs_board gs))" by auto
  have "?ms ! 5 \<in> set ?ms" "?ms ! 4 \<in> set ?ms" using six by simp_all
  with hit obtain m where m: "m \<in> set ?ms" "m_row m = r" "m_column m = c" by blast
  with assms(4) r have c: "0 \<le> c" "c < int h" by (auto simp: consistent_def)
  have "length (gs_board gs ! nat r) = h" using assms(4) r by (auto simp: consistent_def)
  with c have c': "c < int (length (gs_board gs ! nat r))" by simp
  have "b' = (gs_board gs)[nat r := (gs_board gs ! nat r)[nat c := Removed]]"
    using b' writeCell_inside[OF r c(1) c'] by simp
  with am assms(3) have gs': "gs' = \<lparr>gs_board = (gs_board gs)[nat r := (gs_board gs ! nat r)[nat c := Removed]],
                 gs_moves = gs_moves gs @ [removal r c]\<rparr>"
    by (simp add: accepted_def)
  show ?thesis unfolding gs'
    using consistent_update[OF assms(4) r c(1) c', of "removal r c" Removed]
    by (simp add: removal_def)
qed

lemma attemptPass_consistent:
  assumes "attemptPass pc gs = am" "am_valid am" "am_gameState am = Some gs'"
    "consistent w h gs"
  shows "consistent w h gs' \<and> length (gs_moves gs') = Suc (length (gs_moves gs))"
proof -
  from assms(1,2,3) have gs': "gs' = \<lparr>gs_board = gs_board gs, gs_moves = gs_moves gs @ [passMove pc]\<rparr>"
    by (auto simp: attemptPass_def invalid_def accepted_def split: if_splits)
  show ?thesis unfolding gs' using assms(4)
    by (auto simp: consistent_def replay_snoc applyMove_def passMove_def)
qed

lemma perform_consistent:
  assumes "perform a gs = Some (Inr am)" "am_valid am" "am_gameState am = Some gs'"
    "consistent w h gs"
  shows "consistent w h gs' \<and> length (gs_moves gs') = Suc (length (gs_moves gs))"
  using assms
proof (cases a)
  case (Ply pc r c)
  with assms show ?thesis using attemptPly_consistent[of pc r c gs am gs' w h] by simp
next
  case (Remove r c)
  with assms show ?thesis using attemptRemove_consistent[of r c gs am gs' w h] by simp
next
  case (Pass pc)
  with assms show ?thesis using attemptPass_consistent[of pc gs am gs' w h] by auto
qed

lemma play_consistent:
  "play acts gs = Some gs' \<Longrightarrow> consistent w h gs \<Longrightarrow>
     consistent w h gs' \<and> length (gs_moves gs') = length (gs_moves gs) + length acts"
proof (induction acts arbitrary: gs)
  case Nil
  then show ?case by simp
next
  case (Cons a acts)
  from Cons.prems(1) obtain am mid where am: "perform a gs = Some (Inr am)" "am_valid am"
    "am_gameState am = Some mid" "play acts mid = Some gs'"
    by (auto split: option.splits sum.splits if_splits)
  from perform_consistent[OF am(1,2,3) Cons.prems(2)]
  have "consistent w h mid" "length (gs_moves mid) = Suc (length (gs_moves gs))" by auto
  with Cons.IH[OF am(4)] show ?case by simp
qed

lemma consistent_start: "initiateGame w h Null = Inr gs \<Longrightarrow> consistent w h gs"
  by (auto simp: initiateGame_def createBoard_def consistent_def replay_def split: if_splits)

lemma passedOpening_reached:
  "play [Ply Black 7 7, Ply White 6 7, Ply Black 8 7, Pass White, Pass Black, Pass Black]
     (emptyPosition 15 15) = Some passedOpening"
  by code_simp

lemma forcedPair_reached:
  "play [Ply Black 7 7, Ply White 6 7, Ply Black 8 7, Ply White 3 7, Ply Black 9 7, Ply Black 5 7]
     (emptyPosition 15 15) = Some forcedPair"
  by code_simp

lemma initiateGame_15: "initiateGame 15 15 Null = Inr (emptyPosition 15 15)"
  by (simp add: initiateGame_def createBoard_def emptyPosition_def)

text \<open>
  C6, as stated, fails in its first half: a pass is logged, so after three
  placements and three passes the log has six entries while three of the actions
  applied were not passes.
\<close>

theorem log_counts_passes_counterexample:
  "initiateGame 15 15 Null = Inr (emptyPosition 15 15)
   \<and> play [Ply Black 7 7, Ply White 6 7, Ply Black 8 7, Pass White, Pass Black, Pass Black]
        (emptyPosition 15 15) = Some passedOpening
   \<and> length (gs_moves passedOpening) = 6
   \<and> length (filter (\<lambda>a. \<not> isPass a)
        [Ply Black 7 7, Ply White 6 7, Ply Black 8 7, Pass White, Pass Black, Pass Black]) = 3"
  using initiateGame_15 passedOpening_reached by (simp add: passedOpening_def)

text \<open>
  C6, amended. For every position reached from \<^verbatim>\<open>initiateGame\<close> by accepted
  \<^verbatim>\<open>attemptPly\<close>, \<^verbatim>\<open>attemptRemove\<close> and \<^verbatim>\<open>attemptPass\<close> operations, the length of the
  log is the number of actions applied (passes included), and the board is the fold
  of the logged moves, in order, onto the empty board of the same dimensions.
\<close>

theorem log_and_board:
  assumes "initiateGame w h Null = Inr start" "play acts start = Some gs"
  shows "length (gs_moves gs) = length acts \<and> gs_board gs = replay w h (gs_moves gs)"
proof -
  from assms(1) have "gs_moves start = []"
    by (auto simp: initiateGame_def createBoard_def split: if_splits)
  with play_consistent[OF assms(2) consistent_start[OF assms(1)]]
  show ?thesis by (simp add: consistent_def)
qed

theorem log_and_board_witness:
  "initiateGame 15 15 Null = Inr (emptyPosition 15 15)
   \<and> play [Ply Black 7 7, Ply White 6 7, Ply Black 8 7, Ply White 3 7, Ply Black 9 7, Ply Black 5 7]
        (emptyPosition 15 15) = Some forcedPair
   \<and> length (gs_moves forcedPair) = 6
   \<and> gs_board forcedPair = replay 15 15 (gs_moves forcedPair)"
  using log_and_board [OF initiateGame_15 forcedPair_reached] initiateGame_15 forcedPair_reached
  by simp

subsection \<open>Removal\<close>

text \<open>
  C5, as stated, fails: with six moves made of which the sixth is a pass, the target
  (-1, -1) equals the location of the sixth logged move, and \<^verbatim>\<open>attemptRemove\<close> throws
  a \<^verbatim>\<open>TypeError\<close> instead of returning.
\<close>

theorem attemptRemove_pass_counterexample:
  "initiateGame 15 15 Null = Inr (emptyPosition 15 15)
   \<and> play [Ply Black 7 7, Ply White 6 7, Ply Black 8 7, Pass White, Pass Black, Pass Black]
        (emptyPosition 15 15) = Some passedOpening
   \<and> movesMade passedOpening = 6
   \<and> m_row (gs_moves passedOpening ! 5) = - 1 \<and> m_column (gs_moves passedOpening ! 5) = - 1
   \<and> attemptRemove (- 1) (- 1) passedOpening = Inl TypeError"
proof -
  have "attemptRemove (- 1) (- 1) passedOpening = Inl TypeError" by code_simp
  then show ?thesis using initiateGame_15 passedOpening_reached
    by (simp add: passedOpening_def movesMade_def passMove_def)
qed

lemma cellAt_js_assign:
  assumes "0 \<le> i"
  shows "cellAt (js_assign cs i v) j = (if j = i then v else cellAt cs j)"
proof (cases "i < int (length cs)")
  case True
  with assms show ?thesis
    by (auto simp: cellAt_def js_assign_def js_index_def nat_eq_iff2)
next
  case False
  with assms have i: "int (length cs) \<le> i" by simp
  then have n: "nat i - length cs + length cs = nat i" by simp
  show ?thesis
  proof (cases "0 \<le> j \<and> j < int (length cs)")
    case True
    with i show ?thesis
      by (auto simp: cellAt_def js_assign_def js_index_def nth_append)
  next
    case False
    with i assms show ?thesis
      by (auto simp: cellAt_def js_assign_def js_index_def nth_append nat_less_iff)
  qed
qed

lemma readCell_writeCell:
  assumes "0 \<le> row" "row < int (length b)" "0 \<le> column"
  shows "\<exists>b'. writeCell b row column v = Inr b'
           \<and> (\<forall>r c. readCell b' r c = (if r = row \<and> c = column then Inr v else readCell b r c))"
proof -
  let ?b = "b[nat row := js_assign (b ! nat row) column v]"
  have w: "writeCell b row column v = Inr ?b"
    using assms by (simp add: writeCell_def js_index_def)
  have "readCell ?b r c = (if r = row \<and> c = column then Inr v else readCell b r c)" for r c
    using assms cellAt_js_assign[OF assms(3), of "b ! nat row" v c]
    by (auto simp: readCell_def js_index_def nth_list_update nat_eq_iff2)
  with w show ?thesis by blast
qed

text \<open>A target that equals the location of the fifth or sixth of six logged moves
  and whose row is not a row of the board makes \<^verbatim>\<open>attemptRemove\<close> throw.\<close>

lemma attemptRemove_off_board:
  assumes "movesMade gameState = 6"
    and "(m_row (gs_moves gameState ! 4) = row \<and> m_column (gs_moves gameState ! 4) = column)
         \<or> (m_row (gs_moves gameState ! 5) = row \<and> m_column (gs_moves gameState ! 5) = column)"
    and "row < 0 \<or> int (length (gs_board gameState)) \<le> row"
  shows "attemptRemove row column gameState = Inl TypeError"
  using assms
  by (auto simp: attemptRemove_def Let_def movesMade_def writeCell_def js_index_def bindE_def)

text \<open>
  C5, amended. For every position and every target (row, column), except a target
  that equals the location of the fifth or sixth of six logged moves while its row
  is not a row of the board (the location of a pass): \<^verbatim>\<open>attemptRemove\<close> returns; it
  returns valid exactly when six moves have been made and the target is the
  location of the fifth or the sixth logged move; on success the returned position
  is the input's board after \<^verbatim>\<open>board[row][column] = "removed"\<close> (for a column that
  is not negative: that cell removed, every other cell as before) with the log
  extended by a removal move of colour black; on failure it returns no position.
\<close>

theorem attemptRemove_target:
  assumes "(0 \<le> row \<and> row < int (length (gs_board gameState)))
           \<or> \<not> (movesMade gameState = 6
                 \<and> ((m_row (gs_moves gameState ! 4) = row \<and> m_column (gs_moves gameState ! 4) = column)
                    \<or> (m_row (gs_moves gameState ! 5) = row
                        \<and> m_column (gs_moves gameState ! 5) = column)))"
  shows "\<exists>am. attemptRemove row column gameState = Inr am
     \<and> (am_valid am \<longleftrightarrow>
          movesMade gameState = 6
          \<and> ((m_row (gs_moves gameState ! 4) = row \<and> m_column (gs_moves gameState ! 4) = column)
             \<or> (m_row (gs_moves gameState ! 5) = row \<and> m_column (gs_moves gameState ! 5) = column)))
     \<and> (am_valid am \<longrightarrow>
          (\<exists>gs' m. am_gameState am = Some gs'
             \<and> gs_moves gs' = gs_moves gameState @ [m]
             \<and> m_row m = row \<and> m_column m = column
             \<and> m_playerColour m = Black \<and> m_removed m
             \<and> writeCell (gs_board gameState) row column Removed = Inr (gs_board gs')
             \<and> (0 \<le> column \<longrightarrow>
                   readCell (gs_board gs') row column = Inr Removed
                   \<and> (\<forall>r c. (r, c) \<noteq> (row, column) \<longrightarrow>
                         readCell (gs_board gs') r c = readCell (gs_board gameState) r c))))
     \<and> (\<not> am_valid am \<longrightarrow> am_gameState am = None)"
proof (cases "movesMade gameState = 6
                 \<and> ((m_row (gs_moves gameState ! 4) = row \<and> m_column (gs_moves gameState ! 4) = column)
                    \<or> (m_row (gs_moves gameState ! 5) = row
                        \<and> m_column (gs_moves gameState ! 5) = column))")
  case False
  then have "attemptRemove row column gameState = Inr invalid"
    by (auto simp: attemptRemove_def Let_def movesMade_def)
  with False show ?thesis by (simp add: invalid_def)
next
  case True
  with assms have row: "0 \<le> row" "row < int (length (gs_board gameState))" by auto
  let ?b = "(gs_board gameState)[nat row := js_assign (gs_board gameState ! nat row) column Removed]"
  have w: "writeCell (gs_board gameState) row column Removed = Inr ?b"
    using row by (simp add: writeCell_def js_index_def)
  have am: "attemptRemove row column gameState
              = Inr (accepted ?b (gs_moves gameState @ [removal row column]))"
    using True w by (auto simp: attemptRemove_def Let_def movesMade_def bindE_def)
  have rd: "readCell ?b row column = Inr Removed
            \<and> (\<forall>r c. (r, c) \<noteq> (row, column) \<longrightarrow> readCell ?b r c = readCell (gs_board gameState) r c)"
    if "0 \<le> column"
    using readCell_writeCell[OF row that, of Removed] w by auto
  show ?thesis
    unfolding am using True w rd by (simp add: accepted_def removal_def)
qed

theorem attemptRemove_target_witness:
  "(\<exists>am. attemptRemove 5 7 forcedPair = Inr am \<and> am_valid am
      \<and> (\<exists>gs'. am_gameState am = Some gs' \<and> readCell (gs_board gs') 5 7 = Inr Removed))
   \<and> attemptRemove (- 1) (- 1) forcedPair = Inr invalid
   \<and> attemptRemove 20 7 forcedPair = Inr invalid"
proof -
  have a: "(0 \<le> (5::int) \<and> 5 < int (length (gs_board forcedPair)))
           \<or> \<not> (movesMade forcedPair = 6
                 \<and> ((m_row (gs_moves forcedPair ! 4) = 5 \<and> m_column (gs_moves forcedPair ! 4) = 7)
                    \<or> (m_row (gs_moves forcedPair ! 5) = 5
                        \<and> m_column (gs_moves forcedPair ! 5) = 7)))"
    by (simp add: forcedPair_def)
  have b: "(0 \<le> (- 1::int) \<and> - 1 < int (length (gs_board forcedPair)))
           \<or> \<not> (movesMade forcedPair = 6
                 \<and> ((m_row (gs_moves forcedPair ! 4) = - 1 \<and> m_column (gs_moves forcedPair ! 4) = - 1)
                    \<or> (m_row (gs_moves forcedPair ! 5) = - 1
                        \<and> m_column (gs_moves forcedPair ! 5) = - 1)))"
    by (simp add: forcedPair_def placement_def)
  have c: "(0 \<le> (20::int) \<and> 20 < int (length (gs_board forcedPair)))
           \<or> \<not> (movesMade forcedPair = 6
                 \<and> ((m_row (gs_moves forcedPair ! 4) = 20 \<and> m_column (gs_moves forcedPair ! 4) = 7)
                    \<or> (m_row (gs_moves forcedPair ! 5) = 20
                        \<and> m_column (gs_moves forcedPair ! 5) = 7)))"
    by (simp add: forcedPair_def placement_def)
  from attemptRemove_target[OF a] attemptRemove_target[OF b] attemptRemove_target[OF c]
  show ?thesis
    by (auto simp: forcedPair_def movesMade_def placement_def invalid_def)
qed

subsection \<open>A win claimed after a pass\<close>

lemma some_js_returns:
  assumes "\<And>x. x \<in> set xs \<Longrightarrow> \<exists>v. f x = Inr v"
  shows "\<exists>v. some_js f xs = Inr v"
  using assms
proof (induction xs)
  case Nil
  then show ?case by auto
next
  case (Cons x xs)
  from Cons.prems[of x] obtain v where "f x = Inr v" by auto
  moreover from Cons have "\<exists>v. some_js f xs = Inr v" by simp
  ultimately show ?case by auto
qed

lemma rotateBoard_returns: "board \<noteq> [] \<Longrightarrow> \<exists>rotated. rotateBoard board = Inr rotated"
  by (cases board) (simp_all add: rotateBoard_def)

lemma totalNumberOfTouchingPieces_returns:
  "board \<noteq> [] \<Longrightarrow> \<exists>total. totalNumberOfTouchingPieces playerColour board = Inr total"
  using rotateBoard_returns[of board]
  by (auto simp: totalNumberOfTouchingPieces_def countVerticalTouching_def bindE_def)

lemma scans_return:
  assumes "board \<noteq> []"
  shows "\<exists>v. checkIfFiveInARow playerColour board = Inr v"
    and "\<exists>v. checkOverline playerColour board = Inr v"
  using totalNumberOfTouchingPieces_returns[OF assms, of playerColour]
  by (auto simp: checkIfFiveInARow_def checkOverline_def bindE_def)

lemma doubleAt_returns:
  assumes "rowIndex < length board"
  shows "\<exists>v. doubleAt number run board rowIndex columnIndex = Inr v"
proof -
  from assms obtain r0 rest where b: "board = r0 # rest" by (cases board) auto
  define blank where "blank = replicate (length r0 + 2 * number) Null"
  define padded where "padded = replicate number blank
     @ map (\<lambda>row. replicate number Null
                   @ map (\<lambda>columnIndex. cellAt row (int columnIndex)) [0..<length r0]
                   @ replicate number Null) board
     @ replicate number blank"
  have pad: "pad2DArray number Null board = Inr padded"
    by (simp add: pad2DArray_def b padded_def blank_def Let_def)
  have len: "length padded = length board + 2 * number" by (simp add: padded_def)
  define window where "window = getBoardSection (int rowIndex) (int rowIndex + 2 * int number)
      (int columnIndex) (int columnIndex + 2 * int number) padded"
  have around: "getCellsAround rowIndex columnIndex number board = Inr window"
    by (simp add: getCellsAround_def pad bindE_def Let_def window_def)
  have "js_slice (int rowIndex) (int rowIndex + 2 * int number + 1) padded \<noteq> []"
    using assms len by (auto simp: js_slice_def Let_def min_def)
  then have w: "window \<noteq> []" by (simp add: window_def getBoardSection_def)
  then obtain touching where t: "getTouchingCells window = Inr touching" "touching \<noteq> []"
    by (cases window) (auto simp: getTouchingCells_def Let_def)
  from totalNumberOfTouchingPieces_returns[OF t(2), of Black] around t(1) show ?thesis
    by (auto simp: doubleAt_def bindE_def)
qed

lemma blackMakes_return:
  "\<exists>v. blackMakesDoubleFour board = Inr v" "\<exists>v. blackMakesDoubleThree board = Inr v"
  unfolding blackMakesDoubleFour_def blackMakesDoubleThree_def
  by (intro some_js_returns; simp add: doubleAt_returns)+

lemma removeLastMove_returns:
  assumes "gs_moves gameState \<noteq> []"
    and "0 \<le> m_row (last (gs_moves gameState))"
    and "m_row (last (gs_moves gameState)) < int (length (gs_board gameState))"
  shows "\<exists>retracted. removeLastMove gameState = Inr retracted
           \<and> gs_moves retracted = butlast (gs_moves gameState)
           \<and> writeCell (gs_board gameState) (m_row (last (gs_moves gameState)))
                (m_column (last (gs_moves gameState))) Null = Inr (gs_board retracted)"
  using assms by (simp add: removeLastMove_def writeCell_def js_index_def bindE_def Let_def)

text \<open>
  When the last logged move lies on the board, \<^verbatim>\<open>checkWin\<close> for white returns, and
  it checks in this order: five or more for white, overline of black, double four
  of black on the board and not on the board with the last move retracted, double
  three likewise; the first that holds gives the reason.
\<close>

lemma checkWin_white_order:
  assumes "gs_moves gameState \<noteq> []"
    and "0 \<le> m_row (last (gs_moves gameState))"
    and "m_row (last (gs_moves gameState)) < int (length (gs_board gameState))"
  shows "\<exists>five over overline four fourBefore three threeBefore retracted.
           checkIfFiveInARow White (gs_board gameState) = Inr five
         \<and> checkOverline White (gs_board gameState) = Inr over
         \<and> checkOverline Black (gs_board gameState) = Inr overline
         \<and> blackMakesDoubleFour (gs_board gameState) = Inr four
         \<and> blackMakesDoubleThree (gs_board gameState) = Inr three
         \<and> removeLastMove gameState = Inr retracted
         \<and> blackMakesDoubleFour (gs_board retracted) = Inr fourBefore
         \<and> blackMakesDoubleThree (gs_board retracted) = Inr threeBefore
         \<and> checkWin White gameState
             = Inr (if five \<or> over
                    then \<lparr>ce_valid = True, ce_reason = ''5 or more in a row for white.''\<rparr>
                    else if overline
                    then \<lparr>ce_valid = True, ce_reason = ''Black makes overline.''\<rparr>
                    else if four \<and> \<not> fourBefore
                    then \<lparr>ce_valid = True, ce_reason = ''Black makes double four.''\<rparr>
                    else if three \<and> \<not> threeBefore
                    then \<lparr>ce_valid = True, ce_reason = ''Black makes double three.''\<rparr>
                    else \<lparr>ce_valid = False, ce_reason = ''No winning moves for white.''\<rparr>)"
proof -
  from assms(2,3) have ne: "gs_board gameState \<noteq> []" by auto
  from scans_return[OF ne, of White] obtain five over where
    s1: "checkIfFiveInARow White (gs_board gameState) = Inr five"
        "checkOverline White (gs_board gameState) = Inr over" by blast
  from scans_return(2)[OF ne, of Black] obtain overline where
    s2: "checkOverline Black (gs_board gameState) = Inr overline" by blast
  from blackMakes_return[of "gs_board gameState"] obtain four three where
    s3: "blackMakesDoubleFour (gs_board gameState) = Inr four"
        "blackMakesDoubleThree (gs_board gameState) = Inr three" by blast
  from removeLastMove_returns[OF assms] obtain retracted where
    s4: "removeLastMove gameState = Inr retracted" by blast
  from blackMakes_return[of "gs_board retracted"] obtain fourBefore threeBefore where
    s5: "blackMakesDoubleFour (gs_board retracted) = Inr fourBefore"
        "blackMakesDoubleThree (gs_board retracted) = Inr threeBefore" by blast
  have "checkWin White gameState
          = Inr (if five \<or> over
                 then \<lparr>ce_valid = True, ce_reason = ''5 or more in a row for white.''\<rparr>
                 else if overline
                 then \<lparr>ce_valid = True, ce_reason = ''Black makes overline.''\<rparr>
                 else if four \<and> \<not> fourBefore
                 then \<lparr>ce_valid = True, ce_reason = ''Black makes double four.''\<rparr>
                 else if three \<and> \<not> threeBefore
                 then \<lparr>ce_valid = True, ce_reason = ''Black makes double three.''\<rparr>
                 else \<lparr>ce_valid = False, ce_reason = ''No winning moves for white.''\<rparr>)"
    by (simp add: checkWin_def checkWin_white_def justMade_def bindE_def Let_def noWin_def
        s1 s2 s3 s4 s5)
  with s1 s2 s3 s4 s5 show ?thesis by blast
qed

lemma fourThenPass_reached:
  "play fourThenPass_actions (emptyPosition 15 15) = Some fourThenPass"
  by code_simp

lemma fourFiveThenPass_reached:
  "play fourFiveThenPass_actions (emptyPosition 15 15) = Some fourFiveThenPass"
  by code_simp

lemma fourThenPass_scans:
  "checkIfFiveInARow White (gs_board fourThenPass) = Inr False"
  "checkOverline White (gs_board fourThenPass) = Inr False"
  "checkOverline Black (gs_board fourThenPass) = Inr False"
  "blackMakesDoubleFour (gs_board fourThenPass) = Inr True"
  by code_simp+

lemma fourFiveThenPass_scans:
  "blackMakesDoubleFour (gs_board fourFiveThenPass) = Inr True"
  "checkWin White fourFiveThenPass
     = Inr \<lparr>ce_valid = True, ce_reason = ''5 or more in a row for white.''\<rparr>"
  by code_simp+

lemma fourThenPass_throws: "checkWin White fourThenPass = Inl TypeError"
  by code_simp

text \<open>
  C1 fails on the code. In the position of the engine's test ``double four made
  earlier'' followed by a pass of black, white has no five or more, black has no
  overline, and black's double four and any double three were on the board before
  the last logged move; the claim gives \<^verbatim>\<open>valid: false\<close> with the reason
  \<^verbatim>\<open>"No winning moves for white."\<close>, and \<^verbatim>\<open>checkWin\<close> throws a \<^verbatim>\<open>TypeError\<close> when
  it retracts the pass.
\<close>

theorem checkWin_white_after_pass:
  "initiateGame 15 15 Null = Inr (emptyPosition 15 15)
   \<and> play fourThenPass_actions (emptyPosition 15 15) = Some fourThenPass
   \<and> last (gs_moves fourThenPass) = passMove Black
   \<and> checkIfFiveInARow White (gs_board fourThenPass) = Inr False
   \<and> checkOverline White (gs_board fourThenPass) = Inr False
   \<and> checkOverline Black (gs_board fourThenPass) = Inr False
   \<and> checkWin White fourThenPass = Inl TypeError
   \<and> checkWin White fourThenPass \<noteq> Inr (noWin White)"
  using initiateGame_15 fourThenPass_reached fourThenPass_scans fourThenPass_throws
  by (simp add: fourThenPass_def)

text \<open>
  C10, as stated, fails in its first branch: with a pass logged last and a double
  four of black on the board, \<^verbatim>\<open>checkWin\<close> for white returns (valid, five or more
  for white) when white has five in a row, since that check comes first.
\<close>

theorem checkWin_pass_returns_counterexample:
  "play fourFiveThenPass_actions (emptyPosition 15 15) = Some fourFiveThenPass
   \<and> m_row (last (gs_moves fourFiveThenPass)) = - 1
   \<and> m_column (last (gs_moves fourFiveThenPass)) = - 1
   \<and> blackMakesDoubleFour (gs_board fourFiveThenPass) = Inr True
   \<and> checkWin White fourFiveThenPass
       = Inr \<lparr>ce_valid = True, ce_reason = ''5 or more in a row for white.''\<rparr>"
  using fourFiveThenPass_reached fourFiveThenPass_scans
  by (simp add: fourFiveThenPass_def passMove_def)

text \<open>
  C10, amended. If the last logged move is a pass, white has no earlier-ordered win
  condition (no five or more for white, no overline of black), and black's board
  contains a double four, or a double three and no double four, then \<^verbatim>\<open>checkWin\<close>
  for white throws a \<^verbatim>\<open>TypeError\<close>.
\<close>

theorem checkWin_pass_throws:
  assumes "gs_moves gameState \<noteq> []"
    and "m_row (last (gs_moves gameState)) = - 1" "m_column (last (gs_moves gameState)) = - 1"
    and "checkIfFiveInARow White (gs_board gameState) = Inr False"
    and "checkOverline White (gs_board gameState) = Inr False"
    and "checkOverline Black (gs_board gameState) = Inr False"
    and "blackMakesDoubleFour (gs_board gameState) = Inr True
         \<or> (blackMakesDoubleFour (gs_board gameState) = Inr False
            \<and> blackMakesDoubleThree (gs_board gameState) = Inr True)"
  shows "checkWin White gameState = Inl TypeError"
  using assms
  by (auto simp: checkWin_def checkWin_white_def justMade_def removeLastMove_def writeCell_def
      js_index_def bindE_def Let_def)

theorem checkWin_pass_throws_witness:
  "gs_moves fourThenPass \<noteq> []
   \<and> m_row (last (gs_moves fourThenPass)) = - 1
   \<and> m_column (last (gs_moves fourThenPass)) = - 1
   \<and> blackMakesDoubleFour (gs_board fourThenPass) = Inr True
   \<and> checkWin White fourThenPass = Inl TypeError"
proof -
  have a: "gs_moves fourThenPass \<noteq> []" "m_row (last (gs_moves fourThenPass)) = - 1"
    "m_column (last (gs_moves fourThenPass)) = - 1"
    by (simp_all add: fourThenPass_def passMove_def)
  have b: "blackMakesDoubleFour (gs_board fourThenPass) = Inr True
         \<or> (blackMakesDoubleFour (gs_board fourThenPass) = Inr False
            \<and> blackMakesDoubleThree (gs_board fourThenPass) = Inr True)"
    using fourThenPass_scans(4) by simp
  from checkWin_pass_throws [OF a fourThenPass_scans(1,2,3) b] a fourThenPass_scans(4)
  show ?thesis by simp
qed

subsection \<open>The scanner and the lines of the board\<close>

lemma lead_Cons [simp]: "lead c (x # xs) = (if x = c then Suc (lead c xs) else 0)"
  by (simp add: lead_def)

lemma lead_Nil [simp]: "lead c [] = 0"
  by (simp add: lead_def)


lemma has_run_Nil [simp]: "has_run c n [] \<longleftrightarrow> n = 0"
  by (auto simp: has_run_def)






































lemma fiveBlack_reached: "play fiveBlack_actions (emptyPosition 15 15) = Some fiveBlack"
  by code_simp







subsection \<open>The attempts and the caller's arrays\<close>

lemma extends_refl [simp]: "extends s s"
  by (simp add: extends_def)

lemma extends_trans: "extends s s1 \<Longrightarrow> extends s1 s2 \<Longrightarrow> extends s s2"
  by (auto simp: extends_def)

lemma extends_append [simp]: "extends s (s @ xs)"
  by (simp add: extends_def nth_append)

lemma extends_update: "extends s0 s \<Longrightarrow> length s0 \<le> a \<Longrightarrow> extends s0 (s[a := v])"
  by (auto simp: extends_def)

lemma extends_reads:
  assumes "extends s s'" "a < length s"
  shows "rowsOf s' a = rowsOf s a" "cellsOf s' a = cellsOf s a" "logOf s' a = logOf s a"
  using assms by (auto simp: extends_def rowsOf_def cellsOf_def logOf_def)

lemma extends_position:
  assumes "validRef s g" "extends s s'"
  shows "positionOf s' g = positionOf s g" "validRef s' g"
proof -
  from assms(1) obtain rs where rs: "boardRef g < length s" "s ! boardRef g = Rows rs"
    "\<forall>r \<in> set rs. r < length s \<and> (\<exists>cs. s ! r = Cells cs)" "movesRef g < length s"
    "\<exists>ms. s ! movesRef g = Log ms"
    by (auto simp: validRef_def)
  have rows: "rowsOf s' (boardRef g) = rs" "rowsOf s (boardRef g) = rs"
    using extends_reads(1)[OF assms(2) rs(1)] rs(1,2) by (simp_all add: rowsOf_def)
  have "map (cellsOf s') rs = map (cellsOf s) rs"
    using rs(3) extends_reads(2)[OF assms(2)] by simp
  then show "positionOf s' g = positionOf s g"
    using rows extends_reads(3)[OF assms(2) rs(4)] by (simp add: positionOf_def boardOf_def)
  show "validRef s' g"
    using rs assms(2) unfolding validRef_def extends_def
    by (metis (no_types, lifting) order_less_le_trans)
qed

lemma cloneBoard_props:
  assumes "cloneBoard s a = (s', a')"
  shows "extends s s'" "freshBoard (length s) s' a'" "boardOf s' a' = boardOf s a"
proof -
  let ?rows = "rowsOf s a"
  let ?s1 = "s @ map (\<lambda>r. Cells (cellsOf s r)) ?rows"
  let ?new = "[length s..<length s + length ?rows]"
  from assms have s': "s' = ?s1 @ [Rows ?new]" and a': "a' = length ?s1"
    by (auto simp: cloneBoard_def Let_def)
  show "extends s s'" unfolding s' by (simp add: extends_def nth_append)
  have at: "s' ! a' = Rows ?new" unfolding s' a' by (simp add: nth_append)
  have cell: "s' ! (length s + i) = Cells (cellsOf s (?rows ! i))" if "i < length ?rows" for i
    unfolding s' using that by (simp add: nth_append)
  show "freshBoard (length s) s' a'"
    unfolding freshBoard_def
  proof (intro conjI)
    show "length s \<le> a'" by (simp add: a')
    show "a' < length s'" by (simp add: a' s')
    have "\<forall>r \<in> set ?new. length s \<le> r \<and> r < length s' \<and> (\<exists>cs. s' ! r = Cells cs)"
    proof
      fix r assume "r \<in> set ?new"
      then have "length s \<le> r" "r < length s + length ?rows" by simp_all
      then have "r = length s + (r - length s)" "r - length s < length ?rows" by simp_all
      then obtain i where i: "r = length s + i" "i < length ?rows" by blast
      with cell[OF i(2)] show "length s \<le> r \<and> r < length s' \<and> (\<exists>cs. s' ! r = Cells cs)"
        by (simp add: s')
    qed
    moreover have "distinct ?new" "a' \<notin> set ?new" by (simp_all add: a')
    ultimately show "\<exists>rs. s' ! a' = Rows rs \<and> distinct rs \<and> a' \<notin> set rs
            \<and> (\<forall>r \<in> set rs. length s \<le> r \<and> r < length s' \<and> (\<exists>cs. s' ! r = Cells cs))"
      using at by blast
  qed
  have "rowsOf s' a' = ?new" using at by (simp add: rowsOf_def a' s')
  moreover have "map (cellsOf s') ?new = map (cellsOf s) ?rows"
  proof (rule nth_equalityI)
    show "length (map (cellsOf s') ?new) = length (map (cellsOf s) ?rows)" by simp
  next
    fix i assume "i < length (map (cellsOf s') ?new)"
    then have i: "i < length ?rows" by simp
    then have "cellsOf s' (length s + i) = cellsOf s (?rows ! i)"
      using cell[OF i] by (simp add: cellsOf_def s')
    with i show "map (cellsOf s') ?new ! i = map (cellsOf s) ?rows ! i" by simp
  qed
  ultimately show "boardOf s' a' = boardOf s a" by (simp add: boardOf_def)
qed

lemma cloneMoves_props:
  assumes "cloneMoves s a = (s', a')"
  shows "extends s s'" "freshLog (length s) s' a'" "logOf s' a' = logOf s a" "a' = length s"
    "length s' = Suc (length s)"
  using assms by (auto simp: cloneMoves_def freshLog_def logOf_def nth_append)

lemma freshBoard_extends:
  assumes "freshBoard n s a" "extends s s'"
  shows "freshBoard n s' a" "boardOf s' a = boardOf s a"
proof -
  from assms(1) obtain rs where rs: "n \<le> a" "a < length s" "s ! a = Rows rs" "distinct rs"
    "a \<notin> set rs" "\<forall>r \<in> set rs. n \<le> r \<and> r < length s \<and> (\<exists>cs. s ! r = Cells cs)"
    by (auto simp: freshBoard_def)
  have "s' ! a = Rows rs" using assms(2) rs(2,3) by (simp add: extends_def)
  moreover have "\<forall>r \<in> set rs. n \<le> r \<and> r < length s' \<and> (\<exists>cs. s' ! r = Cells cs)"
    using rs(6) assms(2) by (auto simp: extends_def)
  ultimately show "freshBoard n s' a"
    using rs assms(2) by (auto simp: freshBoard_def extends_def)
  have "rowsOf s' a = rs" "rowsOf s a = rs"
    using extends_reads(1)[OF assms(2) rs(2)] rs(2,3) by (simp_all add: rowsOf_def)
  moreover have "map (cellsOf s') rs = map (cellsOf s) rs"
    using rs(6) extends_reads(2)[OF assms(2)] by simp
  ultimately show "boardOf s' a = boardOf s a" by (simp add: boardOf_def)
qed

lemma freshBoard_pushMove:
  assumes "freshBoard n s a" "freshLog n s l"
  shows "freshBoard n (pushMove s l m) a" "boardOf (pushMove s l m) a = boardOf s a"
    "freshLog n (pushMove s l m) l" "logOf (pushMove s l m) l = logOf s l @ [m]"
    "length (pushMove s l m) = length s"
proof -
  from assms(1) obtain rs where rs: "n \<le> a" "a < length s" "s ! a = Rows rs" "distinct rs"
    "a \<notin> set rs" "\<forall>r \<in> set rs. n \<le> r \<and> r < length s \<and> (\<exists>cs. s ! r = Cells cs)"
    by (auto simp: freshBoard_def)
  from assms(2) obtain ms where ms: "n \<le> l" "l < length s" "s ! l = Log ms"
    by (auto simp: freshLog_def)
  have la: "l \<noteq> a" using rs(3) ms(3) by auto
  have lr: "l \<notin> set rs" using rs(6) ms(3) by auto
  let ?s = "pushMove s l m"
  have at: "?s ! a = Rows rs" using la rs(3) by (simp add: pushMove_def)
  have cells: "\<forall>r \<in> set rs. ?s ! r = s ! r"
  proof
    fix r assume "r \<in> set rs"
    with lr have "l \<noteq> r" by auto
    then show "?s ! r = s ! r" by (simp add: pushMove_def)
  qed
  show "freshBoard n ?s a"
    unfolding freshBoard_def using rs at cells by (auto simp: pushMove_def)
  have "rowsOf ?s a = rs" "rowsOf s a = rs" using at rs(2,3) by (simp_all add: rowsOf_def pushMove_def)
  moreover have "map (cellsOf ?s) rs = map (cellsOf s) rs"
    using cells by (auto simp: cellsOf_def pushMove_def)
  ultimately show "boardOf ?s a = boardOf s a" by (simp add: boardOf_def)
  show "freshLog n ?s l" using ms by (simp add: freshLog_def pushMove_def)
  show "logOf ?s l = logOf s l @ [m]" using ms by (simp add: logOf_def pushMove_def)
  show "length ?s = length s" by (simp add: pushMove_def)
qed

lemma assignCell_fresh:
  assumes "freshBoard n s a"
  shows "case assignCell s a row column v of
           Inl e \<Rightarrow> writeCell (boardOf s a) row column v = Inl e
         | Inr s' \<Rightarrow> writeCell (boardOf s a) row column v = Inr (boardOf s' a)
                      \<and> freshBoard n s' a \<and> length s' = length s
                      \<and> (\<forall>x < length s. x < n \<or> (\<exists>ms. s ! x = Log ms) \<longrightarrow> s' ! x = s ! x)"
proof -
  from assms obtain rs where rs: "n \<le> a" "a < length s" "s ! a = Rows rs" "distinct rs"
    "a \<notin> set rs" "\<forall>r \<in> set rs. n \<le> r \<and> r < length s \<and> (\<exists>cs. s ! r = Cells cs)"
    by (auto simp: freshBoard_def)
  have rows: "rowsOf s a = rs" using rs(2,3) by (simp add: rowsOf_def)
  show ?thesis
  proof (cases "0 \<le> row \<and> row < int (length rs)")
    case False
    then show ?thesis by (auto simp: assignCell_def writeCell_def rows js_index_def boardOf_def)
  next
    case True
    from True have "\<exists>i. row = int i \<and> i < length rs"
      by (intro exI[where x = "nat row"]) auto
    then obtain i where i: "i < length rs" "row = int i" by blast
    define r where "r = rs ! i"
    have r: "r \<in> set rs" using i by (simp add: r_def)
    let ?new = "js_assign (cellsOf s r) column v"
    let ?s = "s[r := Cells ?new]"
    have as: "assignCell s a row column v = Inr ?s"
      using i by (simp add: assignCell_def rows js_index_def r_def)
    have ra: "r \<noteq> a" using r rs(5) by auto
    have at: "?s ! a = Rows rs" using ra rs(3) by simp
    have rows': "rowsOf ?s a = rs" using at rs(2) by (simp add: rowsOf_def)
    have rlt: "r < length s" using r rs(6) by auto
    have "map (cellsOf ?s) rs = (map (cellsOf s) rs)[i := ?new]"
    proof (rule nth_equalityI)
      show "length (map (cellsOf ?s) rs) = length ((map (cellsOf s) rs)[i := ?new])" by simp
    next
      fix j assume "j < length (map (cellsOf ?s) rs)"
      then have j: "j < length rs" by simp
      show "map (cellsOf ?s) rs ! j = (map (cellsOf s) rs)[i := ?new] ! j"
      proof (cases "j = i")
        case True
        then show ?thesis using i rlt by (simp add: cellsOf_def r_def)
      next
        case False
        then have "rs ! j \<noteq> r" using rs(4) i j unfolding r_def by (simp add: nth_eq_iff_index_eq)
        then show ?thesis using False j by (simp add: cellsOf_def)
      qed
    qed
    then have b: "boardOf ?s a = (boardOf s a)[i := ?new]"
      by (simp add: boardOf_def rows rows')
    have w: "writeCell (boardOf s a) row column v = Inr ((boardOf s a)[i := ?new])"
      using i by (simp add: writeCell_def js_index_def boardOf_def rows r_def)
    have "\<exists>cs. ?s ! x = Cells cs" if "x \<in> set rs" for x
      using that rs(6) by (cases "x = r") (auto simp: nth_list_update)
    then have fr: "freshBoard n ?s a"
      unfolding freshBoard_def using rs at by auto
    have keep: "\<forall>x < length s. x < n \<or> (\<exists>ms. s ! x = Log ms) \<longrightarrow> ?s ! x = s ! x"
      using r rs(6) by (auto simp: nth_list_update)
    show ?thesis unfolding as using w b fr keep by simp
  qed
qed

lemma assignCell_extends:
  assumes "freshBoard n s a" "assignCell s a row column v = Inr s'" "extends s0 s" "length s0 \<le> n"
  shows "extends s0 s'"
proof -
  from assignCell_fresh[OF assms(1), of row column v] assms(2)
  have "length s' = length s" "\<forall>x < length s. x < n \<longrightarrow> s' ! x = s ! x" by auto
  with assms(3,4) show ?thesis by (auto simp: extends_def)
qed

lemma checkMoveThree_store_sim:
  "map_option snd (checkMoveThree_store pc row column s a)
     = checkMoveThree pc row column (boardOf s a)"
proof (cases "pc = White")
  case True
  then show ?thesis by (simp add: checkMoveThree_store_def checkMoveThree_def)
next
  case False
  obtain s1 nb where c: "cloneBoard s a = (s1, nb)" by (cases "cloneBoard s a")
  note cp = cloneBoard_props[OF c]
  from assignCell_fresh[OF cp(2), of row column pc] False c cp(3) show ?thesis
    by (auto simp: checkMoveThree_store_def checkMoveThree_def split: sum.splits option.splits)
qed

lemma checkMoveThree_store_extends:
  assumes "checkMoveThree_store pc row column s a = Some (s', res)"
  shows "extends s s'"
proof (cases "pc = White")
  case True
  with assms show ?thesis by (simp add: checkMoveThree_store_def)
next
  case False
  obtain s1 nb where c: "cloneBoard s a = (s1, nb)" by (cases "cloneBoard s a")
  note cp = cloneBoard_props[OF c]
  show ?thesis
  proof (cases "assignCell s1 nb row column pc")
    case (Inl e)
    with assms False c cp(1) show ?thesis by (simp add: checkMoveThree_store_def)
  next
    case (Inr s2)
    from assignCell_extends[OF cp(2) Inr cp(1)] have "extends s s2" by simp
    with assms False c Inr show ?thesis
      by (auto simp: checkMoveThree_store_def split: option.splits)
  qed
qed

lemma isMoveValid_store_sim:
  "map_option snd (isMoveValid_store pc row column s g)
     = isMoveValid pc row column (positionOf s g)"
  using checkMoveThree_store_sim[of pc row column s "boardRef g"]
  by (auto simp: isMoveValid_store_def isMoveValid_def positionOf_def Let_def
      split: sum.splits)

lemma isMoveValid_store_extends:
  assumes "isMoveValid_store pc row column s g = Some (s', res)"
  shows "extends s s'"
  using assms checkMoveThree_store_extends[of pc row column s "boardRef g" s' res]
  by (auto simp: isMoveValid_store_def Let_def split: sum.splits if_splits)

lemma fresh_newlyBuilt:
  assumes "freshBoard n s b" "freshLog n s l" "length s0 \<le> n"
  shows "newlyBuilt s0 s \<lparr>boardRef = b, movesRef = l\<rparr>"
proof -
  from assms(1) obtain rs where rs: "n \<le> b" "b < length s" "s ! b = Rows rs"
    "\<forall>r \<in> set rs. n \<le> r \<and> r < length s \<and> (\<exists>cs. s ! r = Cells cs)"
    by (auto simp: freshBoard_def)
  from assms(2) obtain ms where ms: "n \<le> l" "l < length s" "s ! l = Log ms"
    by (auto simp: freshLog_def)
  have "rowsOf s b = rs" using rs(2,3) by (simp add: rowsOf_def)
  with rs ms assms(3) show ?thesis
    by (auto simp: newlyBuilt_def validRef_def refsOf_def)
qed

text \<open>The shared tail of the three operations: clone the board, clone the log,
  push a move, and (for a placement or a removal) write one cell of the clone.\<close>

lemma build_position:
  assumes v: "validRef s0 g" and e: "extends s0 s"
    and cb: "cloneBoard s (boardRef g) = (s1, b)"
    and cm: "cloneMoves s1 (movesRef g) = (s2, l)"
  shows "extends s0 (pushMove s2 l m)"
    and "freshBoard (length s) (pushMove s2 l m) b"
    and "freshLog (length s) (pushMove s2 l m) l"
    and "boardOf (pushMove s2 l m) b = gs_board (positionOf s0 g)"
    and "logOf (pushMove s2 l m) l = gs_moves (positionOf s0 g) @ [m]"
proof -
  note p = extends_position[OF v e]
  note cbp = cloneBoard_props[OF cb]
  note cmp = cloneMoves_props[OF cm]
  have v1: "validRef s1 g" using extends_position(2)[OF p(2) cbp(1)] .
  have fb2: "freshBoard (length s) s2 b" "boardOf s2 b = boardOf s1 b"
    using freshBoard_extends[OF cbp(2) cmp(1)] by simp_all
  have ls: "length s \<le> length s1" using cbp(1) by (simp add: extends_def)
  have fl2: "freshLog (length s) s2 l" using cmp(2) ls by (auto simp: freshLog_def)
  note pm = freshBoard_pushMove[OF fb2(1) fl2, of m]
  have "movesRef g < length s1" using v1 by (simp add: validRef_def)
  then have "logOf s1 (movesRef g) = logOf s (movesRef g)"
    using extends_reads(3)[OF cbp(1)] p(2) by (simp add: validRef_def)
  then have log: "logOf s2 l = gs_moves (positionOf s0 g)"
    using cmp(3) p(1) by (simp add: positionOf_def)
  have "extends s0 s2" using extends_trans[OF e extends_trans[OF cbp(1) cmp(1)]] .
  moreover have "length s0 \<le> l" using fl2 e by (auto simp: freshLog_def extends_def)
  ultimately show "extends s0 (pushMove s2 l m)"
    unfolding pushMove_def by (rule extends_update)
  show "freshBoard (length s) (pushMove s2 l m) b" using pm(1) .
  show "freshLog (length s) (pushMove s2 l m) l" using pm(3) .
  show "boardOf (pushMove s2 l m) b = gs_board (positionOf s0 g)"
    using pm(2) fb2(2) cbp(3) p(1) by (simp add: positionOf_def)
  show "logOf (pushMove s2 l m) l = gs_moves (positionOf s0 g) @ [m]"
    using pm(4) log by simp
qed

lemma clone_position:
  assumes v: "validRef s0 g" and e: "extends s0 s"
    and cb: "cloneBoard s (boardRef g) = (s1, b)"
    and cm: "cloneMoves s1 (movesRef g) = (s2, l)"
  shows "extends s0 s2" and "logOf s2 l = gs_moves (positionOf s0 g)"
proof -
  note p = extends_position[OF v e]
  note cbp = cloneBoard_props[OF cb]
  note cmp = cloneMoves_props[OF cm]
  show "extends s0 s2" using extends_trans[OF e extends_trans[OF cbp(1) cmp(1)]] .
  have "movesRef g < length s" using p(2) by (simp add: validRef_def)
  then have "logOf s1 (movesRef g) = logOf s (movesRef g)"
    using extends_reads(3)[OF cbp(1)] by simp
  then show "logOf s2 l = gs_moves (positionOf s0 g)"
    using cmp(3) p(1) by (simp add: positionOf_def)
qed

lemma write_position:
  assumes v: "validRef s0 g" and e: "extends s0 s3" and n: "length s0 \<le> n"
    and fb: "freshBoard n s3 b" and fl: "freshLog n s3 l"
  shows "case assignCell s3 b row column c of
           Inl err \<Rightarrow> writeCell (boardOf s3 b) row column c = Inl err
         | Inr s4 \<Rightarrow> writeCell (boardOf s3 b) row column c = Inr (boardOf s4 b)
                      \<and> logOf s4 l = logOf s3 l \<and> extends s0 s4
                      \<and> newlyBuilt s0 s4 \<lparr>boardRef = b, movesRef = l\<rparr>"
proof (cases "assignCell s3 b row column c")
  case (Inl err)
  with assignCell_fresh[OF fb, of row column c] show ?thesis by simp
next
  case (Inr s4)
  with assignCell_fresh[OF fb, of row column c]
  have a: "writeCell (boardOf s3 b) row column c = Inr (boardOf s4 b)" "freshBoard n s4 b"
    "length s4 = length s3" "\<forall>x < length s3. x < n \<or> (\<exists>ms. s3 ! x = Log ms) \<longrightarrow> s4 ! x = s3 ! x"
    by auto
  from fl obtain ms where ms: "n \<le> l" "l < length s3" "s3 ! l = Log ms"
    by (auto simp: freshLog_def)
  with a(4) have l4: "s4 ! l = Log ms" by auto
  then have fl4: "freshLog n s4 l" using ms a(3) by (simp add: freshLog_def)
  have "logOf s4 l = logOf s3 l" using l4 ms a(3) by (simp add: logOf_def)
  moreover have "extends s0 s4" using assignCell_extends[OF fb Inr e n] .
  moreover have "newlyBuilt s0 s4 \<lparr>boardRef = b, movesRef = l\<rparr>"
    using fresh_newlyBuilt[OF a(2) fl4 n] .
  ultimately show ?thesis using Inr a(1) by simp
qed

lemma attemptPly_store_correct:
  assumes v: "validRef s g"
  shows "map_option (\<lambda>(s', res). map_sum id (attemptOf s') res) (attemptPly_store pc row column s g)
           = attemptPly pc row column (positionOf s g)"
    and "attemptPly_store pc row column s g = Some (s', res) \<Longrightarrow> leavesInput s g s' res"
proof -
  note sim = isMoveValid_store_sim[of pc row column s g]
  show "map_option (\<lambda>(s', res). map_sum id (attemptOf s') res) (attemptPly_store pc row column s g)
           = attemptPly pc row column (positionOf s g)"
  proof (cases "isMoveValid_store pc row column s g")
    case None
    with sim show ?thesis by (simp add: attemptPly_store_def attemptPly_def)
  next
    case (Some p)
    obtain s0 r where p: "p = (s0, r)" by (cases p)
    note e = isMoveValid_store_extends[OF Some[unfolded p]]
    from sim Some p have pure: "isMoveValid pc row column (positionOf s g) = Some r" by simp
    show ?thesis
    proof (cases r)
      case (Inl err)
      with Some p pure show ?thesis by (simp add: attemptPly_store_def attemptPly_def)
    next
      case (Inr ok)
      show ?thesis
      proof (cases ok)
        case False
        with Some p pure Inr show ?thesis
          by (simp add: attemptPly_store_def attemptPly_def attemptOf_def invalid_def
              invalid_store_def)
      next
        case True
        obtain s1 b where cb: "cloneBoard s0 (boardRef g) = (s1, b)"
          by (cases "cloneBoard s0 (boardRef g)")
        obtain s2 l where cm: "cloneMoves s1 (movesRef g) = (s2, l)"
          by (cases "cloneMoves s1 (movesRef g)")
        let ?m = "placement row column pc"
        let ?s3 = "pushMove s2 l ?m"
        note bp = build_position[OF v e cb cm, where m = ?m]
        have n: "length s \<le> length s0" using e by (simp add: extends_def)
        note wp = write_position[OF v bp(1) n bp(2,3), where row = row and column = column and c = pc]
        show ?thesis
        proof (cases "assignCell ?s3 b row column pc")
          case (Inl err)
          with wp bp(4) Some p pure Inr True cb cm show ?thesis
            by (simp add: attemptPly_store_def attemptPly_def bindE_def Let_def)
        next
          case (Inr s4)
          with wp bp(4,5) Some p pure \<open>r = Inr ok\<close> True cb cm show ?thesis
            by (simp add: attemptPly_store_def attemptPly_def bindE_def Let_def attemptOf_def
                accepted_def accepted_store_def positionOf_def)
        qed
      qed
    qed
  qed
  show "leavesInput s g s' res" if run: "attemptPly_store pc row column s g = Some (s', res)"
  proof -
    from run obtain s0 r where iv: "isMoveValid_store pc row column s g = Some (s0, r)"
      by (auto simp: attemptPly_store_def split: option.splits)
    note e = isMoveValid_store_extends[OF iv]
    show ?thesis
    proof (cases r)
      case (Inl err)
      with run iv e extends_position(1)[OF v e] show ?thesis
        by (auto simp: attemptPly_store_def leavesInput_def)
    next
      case (Inr ok)
      show ?thesis
      proof (cases ok)
        case False
        with run iv Inr e extends_position(1)[OF v e] show ?thesis
          by (auto simp: attemptPly_store_def leavesInput_def invalid_store_def)
      next
        case True
        obtain s1 b where cb: "cloneBoard s0 (boardRef g) = (s1, b)"
          by (cases "cloneBoard s0 (boardRef g)")
        obtain s2 l where cm: "cloneMoves s1 (movesRef g) = (s2, l)"
          by (cases "cloneMoves s1 (movesRef g)")
        let ?m = "placement row column pc"
        let ?s3 = "pushMove s2 l ?m"
        note bp = build_position[OF v e cb cm, where m = ?m]
        have n: "length s \<le> length s0" using e by (simp add: extends_def)
        note wp = write_position[OF v bp(1) n bp(2,3), where row = row and column = column and c = pc]
        show ?thesis
        proof (cases "assignCell ?s3 b row column pc")
          case (Inl err)
          with run iv \<open>r = Inr ok\<close> True cb cm bp(1) extends_position(1)[OF v bp(1)]
          show ?thesis
            by (auto simp: attemptPly_store_def leavesInput_def Let_def)
        next
          case (Inr s4)
          with wp have "extends s s4" "newlyBuilt s s4 \<lparr>boardRef = b, movesRef = l\<rparr>" by auto
          with run iv \<open>r = Inr ok\<close> True cb cm Inr extends_position(1)[OF v \<open>extends s s4\<close>]
          show ?thesis
            by (auto simp: attemptPly_store_def leavesInput_def Let_def accepted_store_def)
        qed
      qed
    qed
  qed
qed

lemma attemptRemove_store_correct:
  assumes v: "validRef s g"
  shows "(case attemptRemove_store row column s g of (s', res) \<Rightarrow> map_sum id (attemptOf s') res)
           = attemptRemove row column (positionOf s g)"
    and "case attemptRemove_store row column s g of (s', res) \<Rightarrow> leavesInput s g s' res"
proof -
  obtain s1 b where cb: "cloneBoard s (boardRef g) = (s1, b)"
    by (cases "cloneBoard s (boardRef g)")
  obtain s2 l where cm: "cloneMoves s1 (movesRef g) = (s2, l)"
    by (cases "cloneMoves s1 (movesRef g)")
  let ?m = "removal row column"
  let ?s3 = "pushMove s2 l ?m"
  note bp = build_position[OF v extends_refl cb cm, where m = ?m]
  note cp = clone_position[OF v extends_refl cb cm]
  note wp = write_position[OF v bp(1) order_refl bp(2,3), where row = row and column = column and c = Removed]
  note p2 = extends_position(1)[OF v cp(1)]
  have mm: "movesMade (positionOf s2 g) = movesMade (positionOf s g)" using p2 by simp
  let ?log = "gs_moves (positionOf s g)"
  let ?hit = "(m_row (?log ! (length ?log - 1)) = row \<and> m_column (?log ! (length ?log - 1)) = column)
              \<or> (m_row (?log ! (length ?log - 2)) = row \<and> m_column (?log ! (length ?log - 2)) = column)"
  consider (count) "movesMade (positionOf s g) \<noteq> 6"
    | (miss) "movesMade (positionOf s g) = 6" "\<not> ?hit"
    | (hit) "movesMade (positionOf s g) = 6" "?hit"
    by blast
  then have "(case attemptRemove_store row column s g of (s', res) \<Rightarrow> map_sum id (attemptOf s') res)
           = attemptRemove row column (positionOf s g)
         \<and> (case attemptRemove_store row column s g of (s', res) \<Rightarrow> leavesInput s g s' res)"
  proof cases
    case count
    with cb cm mm cp p2 show ?thesis
      by (simp add: attemptRemove_store_def attemptRemove_def Let_def attemptOf_def invalid_def
          invalid_store_def leavesInput_def)
  next
    case miss
    with cb cm mm cp p2 show ?thesis
      by (simp add: attemptRemove_store_def attemptRemove_def Let_def attemptOf_def invalid_def
          invalid_store_def leavesInput_def)
  next
    case hit
    show ?thesis
    proof (cases "assignCell ?s3 b row column Removed")
      case (Inl err)
      with wp hit cb cm mm bp(1,4) cp(2) extends_position(1)[OF v bp(1)] show ?thesis
        by (auto simp: attemptRemove_store_def attemptRemove_def Let_def bindE_def leavesInput_def)
    next
      case (Inr s4)
      with wp have w: "writeCell (boardOf ?s3 b) row column Removed = Inr (boardOf s4 b)"
        "logOf s4 l = logOf ?s3 l" "extends s s4"
        "newlyBuilt s s4 \<lparr>boardRef = b, movesRef = l\<rparr>" by auto
      with Inr hit cb cm mm bp(4,5) cp(2) extends_position(1)[OF v w(3)] show ?thesis
        by (auto simp: attemptRemove_store_def attemptRemove_def Let_def bindE_def leavesInput_def
            attemptOf_def accepted_def accepted_store_def positionOf_def)
    qed
  qed
  then show "(case attemptRemove_store row column s g of (s', res) \<Rightarrow> map_sum id (attemptOf s') res)
           = attemptRemove row column (positionOf s g)"
    and "case attemptRemove_store row column s g of (s', res) \<Rightarrow> leavesInput s g s' res"
    by simp_all
qed

lemma attemptPass_store_correct:
  assumes v: "validRef s g"
  shows "(case attemptPass_store pc s g of (s', a) \<Rightarrow> attemptOf s' a)
           = attemptPass pc (positionOf s g)"
    and "case attemptPass_store pc s g of (s', a) \<Rightarrow> leavesInput s g s' (Inr a)"
proof -
  obtain s1 b where cb: "cloneBoard s (boardRef g) = (s1, b)"
    by (cases "cloneBoard s (boardRef g)")
  obtain s2 l where cm: "cloneMoves s1 (movesRef g) = (s2, l)"
    by (cases "cloneMoves s1 (movesRef g)")
  let ?m = "passMove pc"
  let ?s3 = "pushMove s2 l ?m"
  note bp = build_position[OF v extends_refl cb cm, where m = ?m]
  note cp = clone_position[OF v extends_refl cb cm]
  note nb = fresh_newlyBuilt[OF bp(2,3) order_refl]
  show "(case attemptPass_store pc s g of (s', a) \<Rightarrow> attemptOf s' a)
           = attemptPass pc (positionOf s g)"
    using cb cm bp(4,5)
    by (simp add: attemptPass_store_def attemptPass_def Let_def attemptOf_def invalid_def
        invalid_store_def accepted_def accepted_store_def positionOf_def)
  show "case attemptPass_store pc s g of (s', a) \<Rightarrow> leavesInput s g s' (Inr a)"
    using cb cm bp(1) nb extends_position(1)[OF v bp(1)]
    by (simp add: attemptPass_store_def Let_def leavesInput_def invalid_store_def
        accepted_store_def)
qed

text \<open>
  C7. For every position held in a store and every choice of arguments,
  \<^verbatim>\<open>attemptPly\<close>, \<^verbatim>\<open>attemptRemove\<close> and \<^verbatim>\<open>attemptPass\<close> leave every array that
  existed before the call unchanged, so the input position (board and log) is as
  it was, also when the call throws; a valid attempt returns a position built from
  newly allocated arrays, an invalid one returns \<^verbatim>\<open>valid: false\<close> and no position.
  The results read back from the store are those of the value-passing functions.
\<close>

theorem attempts_leave_input:
  assumes "validRef s g"
  shows "(\<forall>s' res. attemptPly_store pc row column s g = Some (s', res) \<longrightarrow> leavesInput s g s' res)
       \<and> (case attemptRemove_store row column s g of (s', res) \<Rightarrow> leavesInput s g s' res)
       \<and> (case attemptPass_store pc s g of (s', a) \<Rightarrow> leavesInput s g s' (Inr a))
       \<and> map_option (\<lambda>(s', res). map_sum id (attemptOf s') res)
             (attemptPly_store pc row column s g)
           = attemptPly pc row column (positionOf s g)
       \<and> (case attemptRemove_store row column s g of (s', res) \<Rightarrow> map_sum id (attemptOf s') res)
           = attemptRemove row column (positionOf s g)
       \<and> (case attemptPass_store pc s g of (s', a) \<Rightarrow> attemptOf s' a)
           = attemptPass pc (positionOf s g)"
  using attemptPly_store_correct(1)[OF assms, of pc row column]
    attemptPly_store_correct(2)[OF assms, of pc row column]
    attemptRemove_store_correct[OF assms, of row column]
    attemptPass_store_correct[OF assms, of pc]
  by blast

lemma smallGame_valid: "validRef smallStore smallGame"
  by (simp add: validRef_def smallStore_def smallGame_def nth_Cons')

lemma smallGame_ply:
  "attemptPly_store Black 1 1 smallStore smallGame
     = Some (smallStore @ [Cells [Null, Null, Null], Cells [Null, Black, Null],
                          Cells [Null, Null, Null], Rows [5, 6, 7], Log [placement 1 1 Black]],
             Inr (accepted_store 8 9))"
  by code_simp

theorem attempts_leave_input_witness:
  "validRef smallStore smallGame
   \<and> (\<exists>s' g'. attemptPly_store Black 1 1 smallStore smallGame
                 = Some (s', Inr \<lparr>amr_gameState = Some g', amr_valid = True\<rparr>)
        \<and> positionOf s' smallGame = positionOf smallStore smallGame
        \<and> newlyBuilt smallStore s' g')"
  using attempts_leave_input [OF smallGame_valid, of Black 1 1] smallGame_ply smallGame_valid
  by (auto simp: leavesInput_def accepted_store_def)

end
